theory Spec2Isabelle
  imports Complex_Main
begin

section \<open>Python values, dictionaries and exceptions\<close>

text \<open>
  The retrieval and answer pipeline lives in \<^verbatim>\<open>src/rag_system.py\<close> (class RAGSystem),
  \<^verbatim>\<open>src/agents.py\<close> (class NASAResearchAgents) and \<^verbatim>\<open>src/document_processor.py\<close>
  (class DocumentProcessor). Rows of the document store and every other dictionary the
  code reads are maps from key to value; a missing key is \<open>None\<close> of the map, which is
  different from the Python value \<^verbatim>\<open>None\<close> stored under a key.

  Numbers: a Python \<^verbatim>\<open>int\<close> is \<open>PInt\<close>, a Python \<^verbatim>\<open>float\<close> is \<open>PFloat\<close> over the
  exact reals. Comparisons of such numbers are exact in Python as well. Arithmetic is
  not: Python computes on binary doubles, so the value of a sum, a mean or a rounding can
  differ from the exact one in the last place, a number beyond the range of a double
  makes the arithmetic raise OverflowError, and infinities and NaN exist. None of this is
  part of the model, and no statement below depends on the value of an arithmetic
  result.
  An exception is a value carrying its message (what \<^verbatim>\<open>str(e)\<close> gives); only
  subclasses of \<^verbatim>\<open>Exception\<close> are modelled, since these are what the code's
  \<^verbatim>\<open>except Exception\<close> handlers catch.
\<close>

datatype py_exn = Exception string

datatype pyval = PNone | PInt int | PFloat real | PStr string

type_synonym pydict = "string \<rightharpoonup> pyval"

definition py_get :: "pydict \<Rightarrow> string \<Rightarrow> pyval \<Rightarrow> pyval" where
  \<comment> \<open>\<^verbatim>\<open>d.get(k, default)\<close>\<close>
  "py_get d k dflt = (case d k of None \<Rightarrow> dflt | Some v \<Rightarrow> v)"

fun num_of :: "pyval \<Rightarrow> real option" where
  "num_of (PInt i) = Some (of_int i)"
| "num_of (PFloat r) = Some r"
| "num_of PNone = None"
| "num_of (PStr s) = None"

fun py_truthy :: "pyval \<Rightarrow> bool" where
  "py_truthy PNone = False"
| "py_truthy (PInt i) = (i \<noteq> 0)"
| "py_truthy (PFloat r) = (r \<noteq> 0)"
| "py_truthy (PStr s) = (s \<noteq> [])"

definition py_ge :: "pyval \<Rightarrow> real \<Rightarrow> py_exn + bool" where
  \<comment> \<open>\<^verbatim>\<open>v >= t\<close> for a float \<open>t\<close>: TypeError unless \<open>v\<close> is a number\<close>
  "py_ge v t = (case num_of v of
       None \<Rightarrow> Inl (Exception ''TypeError: >= not supported'')
     | Some x \<Rightarrow> Inr (t \<le> x))"

definition py_gt :: "pyval \<Rightarrow> real \<Rightarrow> py_exn + bool" where
  \<comment> \<open>\<^verbatim>\<open>v > t\<close> for a float \<open>t\<close>\<close>
  "py_gt v t = (case num_of v of
       None \<Rightarrow> Inl (Exception ''TypeError: > not supported'')
     | Some x \<Rightarrow> Inr (t < x))"

fun str_lt :: "string \<Rightarrow> string \<Rightarrow> bool" where
  \<comment> \<open>lexicographic order of strings by character code\<close>
  "str_lt [] [] = False"
| "str_lt [] (b # bs) = True"
| "str_lt (a # as) [] = False"
| "str_lt (a # as) (b # bs) =
     (if (of_char a :: nat) < of_char b then True
      else if (of_char b :: nat) < of_char a then False
      else str_lt as bs)"

definition py_lt :: "pyval \<Rightarrow> pyval \<Rightarrow> py_exn + bool" where
  \<comment> \<open>\<^verbatim>\<open>a < b\<close>: numbers with numbers, strings with strings, TypeError otherwise
      (also for \<^verbatim>\<open>None < None\<close>)\<close>
  "py_lt a b = (case (a, b) of
       (PStr s, PStr t) \<Rightarrow> Inr (str_lt s t)
     | _ \<Rightarrow> (case (num_of a, num_of b) of
           (Some x, Some y) \<Rightarrow> Inr (x < y)
         | _ \<Rightarrow> Inl (Exception ''TypeError: < not supported'')))"

fun py_sum_from :: "real \<Rightarrow> pyval list \<Rightarrow> py_exn + real" where
  "py_sum_from acc [] = Inr acc"
| "py_sum_from acc (v # vs) = (case num_of v of
       None \<Rightarrow> Inl (Exception ''TypeError: unsupported operand type(s) for +'')
     | Some x \<Rightarrow> py_sum_from (acc + x) vs)"

definition py_sum :: "pyval list \<Rightarrow> py_exn + real" where
  \<comment> \<open>\<^verbatim>\<open>sum(xs)\<close>: starts at 0 and adds from the left\<close>
  "py_sum vs = py_sum_from 0 vs"

fun py_filter :: "('a \<Rightarrow> py_exn + bool) \<Rightarrow> 'a list \<Rightarrow> py_exn + 'a list" where
  \<comment> \<open>\<^verbatim>\<open>[x for x in xs if p(x)]\<close>; the first test that raises ends the comprehension\<close>
  "py_filter p [] = Inr []"
| "py_filter p (x # xs) = (case p x of
       Inl e \<Rightarrow> Inl e
     | Inr b \<Rightarrow> (case py_filter p xs of
           Inl e \<Rightarrow> Inl e
         | Inr ys \<Rightarrow> Inr (if b then x # ys else ys)))"

definition round_half_even :: "real \<Rightarrow> int" where
  "round_half_even x =
     (let f = \<lfloor>x\<rfloor>; d = x - of_int f in
      if d < 1 / 2 then f
      else if 1 / 2 < d then f + 1
      else if even f then f else f + 1)"

definition py_round2 :: "real \<Rightarrow> real" where
  \<comment> \<open>\<^verbatim>\<open>round(x, 2)\<close> on exact values: the nearest multiple of 0.01, ties to even.
      Python rounds the double it has computed, which can fall on the other side of a tie.\<close>
  "py_round2 x = of_int (round_half_even (x * 100)) / 100"

definition try_except :: "py_exn + 'a \<Rightarrow> (py_exn \<Rightarrow> py_exn + 'a) \<Rightarrow> py_exn + 'a" where
  \<comment> \<open>\<^verbatim>\<open>try: body  except Exception as e: handler(e)\<close> for code without side effects\<close>
  "try_except body handler = (case body of Inl e \<Rightarrow> handler e | Inr v \<Rightarrow> Inr v)"

section \<open>Search results, sources and confidence (rag_system.py)\<close>

type_synonym kg_item = "string \<rightharpoonup> pydict"

datatype evidence = RowData pydict | KGData kg_item

record combined =
  c_type :: string
  c_source :: string
  c_data :: evidence
  c_relevance_score :: pyval
  c_title :: pyval

record search_results =
  sr_documents :: "pydict list option"
  sr_chunks :: "pydict list option"
  sr_knowledge_graph :: "kg_item list option"
  sr_combined_results :: "combined list option"
  sr_query :: "string option"
  sr_error :: "string option"

definition get_list :: "'a list option \<Rightarrow> 'a list" where
  \<comment> \<open>\<^verbatim>\<open>search_results.get(key, [])\<close>\<close>
  "get_list v = (case v of None \<Rightarrow> [] | Some xs \<Rightarrow> xs)"

record source =
  src_type :: string
  src_title :: pyval
  src_filename :: pyval
  src_chunk_index :: "pyval option"
  src_similarity :: pyval
  src_id :: pyval

definition document_source :: "pydict \<Rightarrow> source" where
  "document_source doc =
     \<lparr> src_type = ''document'',
       src_title = py_get doc ''title'' (py_get doc ''filename'' (PStr ''Unknown'')),
       src_filename = py_get doc ''filename'' (PStr ''Unknown''),
       src_chunk_index = None,
       src_similarity = py_get doc ''similarity'' (PInt 0),
       src_id = py_get doc ''id'' PNone \<rparr>"

definition chunk_source :: "pydict \<Rightarrow> source" where
  "chunk_source chunk =
     \<lparr> src_type = ''chunk'',
       src_title = py_get chunk ''title'' (py_get chunk ''filename'' (PStr ''Unknown'')),
       src_filename = py_get chunk ''filename'' (PStr ''Unknown''),
       src_chunk_index = Some (py_get chunk ''chunk_index'' (PInt 0)),
       src_similarity = py_get chunk ''similarity'' (PInt 0),
       src_id = py_get chunk ''id'' PNone \<rparr>"

definition extract_sources :: "search_results \<Rightarrow> source list" where
  \<comment> \<open>\<^verbatim>\<open>RAGSystem._extract_sources\<close>\<close>
  "extract_sources sr =
     take 10 (map document_source (get_list (sr_documents sr))
              @ map chunk_source (get_list (sr_chunks sr)))"

definition calculate_confidence_body :: "search_results \<Rightarrow> py_exn + real" where
  \<comment> \<open>the \<^verbatim>\<open>try\<close> block of \<^verbatim>\<open>RAGSystem._calculate_confidence\<close>. The control flow
      and the TypeError of \<^verbatim>\<open>sum\<close> on a value that is not a number are the code's; the
      arithmetic is exact, so the number returned is an idealisation of the double the
      code returns, and the OverflowError of the code on numbers beyond the range of a
      double is not modelled.\<close>
  "calculate_confidence_body sr =
     (let docs = get_list (sr_documents sr);
          chunks = get_list (sr_chunks sr) in
      if docs = [] \<and> chunks = [] then Inr 0
      else
        let doc_similarities = map (\<lambda>doc. py_get doc ''similarity'' (PInt 0)) docs;
            chunk_similarities = map (\<lambda>chunk. py_get chunk ''similarity'' (PInt 0)) chunks;
            all_similarities = doc_similarities @ chunk_similarities in
        if all_similarities = [] then Inr 0
        else
          (case py_sum all_similarities of
             Inl e \<Rightarrow> Inl e
           | Inr sum_all \<Rightarrow>
               let avg_similarity = sum_all / real (length all_similarities) in
               (case py_filter (\<lambda>s. py_gt s 0.8) all_similarities of
                  Inl e \<Rightarrow> Inl e
                | Inr good \<Rightarrow>
                    let num_good_sources = length good;
                        source_bonus = min (real num_good_sources * 0.1) 0.3;
                        confidence = min (avg_similarity + source_bonus) 1.0 in
                    Inr (py_round2 confidence))))"

definition calculate_confidence :: "search_results \<Rightarrow> py_exn + real" where
  \<comment> \<open>\<^verbatim>\<open>RAGSystem._calculate_confidence\<close>: any exception of the body gives 0.5\<close>
  "calculate_confidence sr = try_except (calculate_confidence_body sr) (\<lambda>e. Inr 0.5)"

section \<open>External collaborators and the state of the world\<close>

text \<open>
  The embedding provider, the completion provider, the document store, the graph store
  and the chat store are outside the repository. Each is a function of the world it runs
  in: it returns a value or raises, and leaves a new world. Nothing is assumed about
  them. Every external call is also written to a trace, so that the calls a function makes
  can be counted. Python's \<^verbatim>\<open>str\<close> and \<^verbatim>\<open>json.loads\<close> are parameters as well.
\<close>

record entity =
  e_type :: "pyval option"
  e_data :: "pydict option"

datatype message = HumanMessage string | AIMessage string

fun content :: "message \<Rightarrow> string" where
  "content (HumanMessage c) = c"
| "content (AIMessage c) = c"

datatype prompt =
    ClassifyPrompt string
  | SearchPrompt string "pydict list"
  | AnalysisPrompt string "kg_item list"
  | SynthesisPrompt string string
  | VerifyPrompt string "pydict list"
  | FollowUpPrompt string string

datatype call =
    EmbedCall string
  | DocumentSearchCall nat
  | ChunkSearchCall nat
  | GraphSearchCall string nat
  | RelationshipsCall pyval
  | CompletionCall prompt
  | ChatMessageCall string string string

record 'w state =
  world :: 'w
  trace :: "call list"

record 'w env =
  py_str :: "pyval \<Rightarrow> string"
  json_loads_object :: "string \<Rightarrow> py_exn + pydict"
  json_loads_array :: "string \<Rightarrow> py_exn + pyval list"
  embed_content :: "string \<Rightarrow> 'w \<Rightarrow> (py_exn + real list option) \<times> 'w"
  db_search_similar_documents :: "real list \<Rightarrow> nat \<Rightarrow> 'w \<Rightarrow> (py_exn + pydict list) \<times> 'w"
  db_search_similar_chunks :: "real list \<Rightarrow> nat \<Rightarrow> 'w \<Rightarrow> (py_exn + pydict list) \<times> 'w"
  db_add_chat_message :: "string \<Rightarrow> string \<Rightarrow> string \<Rightarrow> source list \<Rightarrow> 'w \<Rightarrow> (py_exn + unit) \<times> 'w"
  neo4j_search_graph :: "string \<Rightarrow> nat \<Rightarrow> 'w \<Rightarrow> (py_exn + entity list) \<times> 'w"
  neo4j_get_entity_relationships :: "pyval \<Rightarrow> 'w \<Rightarrow> (py_exn + kg_item list) \<times> 'w"
  llm_invoke :: "prompt \<Rightarrow> 'w \<Rightarrow> (py_exn + string) \<times> 'w"

record rag_system =
  similarity_threshold :: real
  neo4j_driver :: bool
  agents_llm :: bool
  agents_graph :: bool

definition external :: "call \<Rightarrow> ('w \<Rightarrow> 'a \<times> 'w) \<Rightarrow> 'w state \<Rightarrow> 'a \<times> 'w state" where
  \<comment> \<open>run one external call in the current world and record it\<close>
  "external c f s = (case f (world s) of
       (r, w') \<Rightarrow> (r, s\<lparr> world := w', trace := trace s @ [c] \<rparr>))"

definition try_except_st ::
  "(py_exn + 'a) \<times> 's \<Rightarrow> (py_exn \<Rightarrow> py_exn + 'a) \<Rightarrow> (py_exn + 'a) \<times> 's" where
  \<comment> \<open>\<^verbatim>\<open>try/except Exception\<close> around code with effects: what the body did before it
      raised stays done\<close>
  "try_except_st body handler = (case body of (r, s') \<Rightarrow> (try_except r handler, s'))"

fun embed_texts :: "call list \<Rightarrow> string list" where
  \<comment> \<open>the texts handed to the embedding provider, in call order\<close>
  "embed_texts [] = []"
| "embed_texts (EmbedCall t # cs) = t # embed_texts cs"
| "embed_texts (c # cs) = embed_texts cs"

fun completion_prompts :: "call list \<Rightarrow> prompt list" where
  \<comment> \<open>the prompts handed to the completion provider, in call order\<close>
  "completion_prompts [] = []"
| "completion_prompts (CompletionCall p # cs) = p # completion_prompts cs"
| "completion_prompts (c # cs) = completion_prompts cs"

section \<open>Retriever (rag_system.py, document_processor.py)\<close>

definition generate_embeddings :: "'w env \<Rightarrow> string \<Rightarrow> 'w state \<Rightarrow> (py_exn + real list option) \<times> 'w state" where
  \<comment> \<open>\<^verbatim>\<open>DocumentProcessor.generate_embeddings\<close> on a single text; the embedding model name
      is a constant non-empty string, so its guard never fires\<close>
  "generate_embeddings env texts s =
     try_except_st
       (case external (EmbedCall texts) (embed_content env texts) s of
          (Inl e, s') \<Rightarrow> (Inl e, s')
        | (Inr embedding, s') \<Rightarrow>
            (case embedding of
               None \<Rightarrow> (Inr None, s')
             | Some v \<Rightarrow> if v \<noteq> [] \<and> 0 < length v then (Inr (Some v), s') else (Inr None, s')))
       (\<lambda>e. Inr None)"

definition passes_threshold :: "rag_system \<Rightarrow> pydict \<Rightarrow> py_exn + bool" where
  \<comment> \<open>\<^verbatim>\<open>doc.get('similarity', 0) >= self.similarity_threshold\<close>\<close>
  "passes_threshold rag doc = py_ge (py_get doc ''similarity'' (PInt 0)) (similarity_threshold rag)"

definition search_documents ::
  "'w env \<Rightarrow> rag_system \<Rightarrow> string \<Rightarrow> nat \<Rightarrow> 'w state \<Rightarrow> (py_exn + pydict list) \<times> 'w state" where
  \<comment> \<open>\<^verbatim>\<open>RAGSystem.search_documents\<close>\<close>
  "search_documents env rag query limit s =
     try_except_st
       (case generate_embeddings env query s of
          (Inl e, s1) \<Rightarrow> (Inl e, s1)
        | (Inr query_embedding, s1) \<Rightarrow>
            (case query_embedding of
               None \<Rightarrow> (Inr [], s1)
             | Some v \<Rightarrow>
                 if v = [] then (Inr [], s1)
                 else
                   (case external (DocumentSearchCall limit)
                           (db_search_similar_documents env v limit) s1 of
                      (Inl e, s2) \<Rightarrow> (Inl e, s2)
                    | (Inr similar_docs, s2) \<Rightarrow>
                        (py_filter (passes_threshold rag) similar_docs, s2))))
       (\<lambda>e. Inr [])"

definition search_chunks ::
  "'w env \<Rightarrow> rag_system \<Rightarrow> string \<Rightarrow> nat \<Rightarrow> 'w state \<Rightarrow> (py_exn + pydict list) \<times> 'w state" where
  \<comment> \<open>\<^verbatim>\<open>RAGSystem.search_chunks\<close>\<close>
  "search_chunks env rag query limit s =
     try_except_st
       (case generate_embeddings env query s of
          (Inl e, s1) \<Rightarrow> (Inl e, s1)
        | (Inr query_embedding, s1) \<Rightarrow>
            (case query_embedding of
               None \<Rightarrow> (Inr [], s1)
             | Some v \<Rightarrow>
                 if v = [] then (Inr [], s1)
                 else
                   (case external (ChunkSearchCall limit)
                           (db_search_similar_chunks env v limit) s1 of
                      (Inl e, s2) \<Rightarrow> (Inl e, s2)
                    | (Inr similar_chunks, s2) \<Rightarrow>
                        (py_filter (passes_threshold rag) similar_chunks, s2))))
       (\<lambda>e. Inr [])"

fun collect_relationships ::
  "'w env \<Rightarrow> entity list \<Rightarrow> kg_item list \<Rightarrow> 'w state \<Rightarrow> (py_exn + kg_item list) \<times> 'w state" where
  \<comment> \<open>the \<^verbatim>\<open>for entity in entities\<close> loop of \<^verbatim>\<open>search_knowledge_graph\<close>\<close>
  "collect_relationships env [] kg_context s = (Inr kg_context, s)"
| "collect_relationships env (ent # ents) kg_context s =
     (case e_type ent of
        None \<Rightarrow> (Inl (Exception ''KeyError: type''), s)
      | Some t \<Rightarrow>
          if t = PStr ''entity'' then
            (case e_data ent of
               None \<Rightarrow> (Inl (Exception ''KeyError: data''), s)
             | Some d \<Rightarrow>
                 let entity_id = py_get d ''id'' PNone in
                 if py_truthy entity_id then
                   (case external (RelationshipsCall entity_id)
                           (neo4j_get_entity_relationships env entity_id) s of
                      (Inl e, s') \<Rightarrow> (Inl e, s')
                    | (Inr relationships, s') \<Rightarrow>
                        collect_relationships env ents (kg_context @ relationships) s')
                 else collect_relationships env ents kg_context s)
          else collect_relationships env ents kg_context s)"

definition search_knowledge_graph ::
  "'w env \<Rightarrow> rag_system \<Rightarrow> string \<Rightarrow> 'w state \<Rightarrow> (py_exn + kg_item list) \<times> 'w state" where
  \<comment> \<open>\<^verbatim>\<open>RAGSystem.search_knowledge_graph\<close>\<close>
  "search_knowledge_graph env rag query s =
     try_except_st
       (if \<not> neo4j_driver rag then (Inr [], s)
        else
          (case external (GraphSearchCall query 20) (neo4j_search_graph env query 20) s of
             (Inl e, s1) \<Rightarrow> (Inl e, s1)
           | (Inr entities, s1) \<Rightarrow> collect_relationships env entities [] s1))
       (\<lambda>e. Inr [])"

fun insort_desc :: "('a \<Rightarrow> pyval) \<Rightarrow> 'a \<Rightarrow> 'a list \<Rightarrow> py_exn + 'a list" where
  "insort_desc key x [] = Inr [x]"
| "insort_desc key x (y # ys) = (case py_lt (key x) (key y) of
       Inl e \<Rightarrow> Inl e
     | Inr b \<Rightarrow>
         if b then (case insort_desc key x ys of
                      Inl e \<Rightarrow> Inl e
                    | Inr zs \<Rightarrow> Inr (y # zs))
         else Inr (x # y # ys))"

fun py_sort_reverse :: "('a \<Rightarrow> pyval) \<Rightarrow> 'a list \<Rightarrow> py_exn + 'a list" where
  \<comment> \<open>\<^verbatim>\<open>xs.sort(key=key, reverse=True)\<close>. Python's sort is stable, also with
      \<^verbatim>\<open>reverse=True\<close>, and compares keys with \<^verbatim>\<open><\<close> only; a comparison that raises
      ends the sort. An insertion sort has the same result and raises on the same lists
      (those of two or more elements whose keys cannot all be compared).\<close>
  "py_sort_reverse key [] = Inr []"
| "py_sort_reverse key (x # xs) = (case py_sort_reverse key xs of
       Inl e \<Rightarrow> Inl e
     | Inr ys \<Rightarrow> insort_desc key x ys)"

definition document_item :: "pydict \<Rightarrow> combined" where
  "document_item doc =
     \<lparr> c_type = ''document'',
       c_source = ''vector_search'',
       c_data = RowData doc,
       c_relevance_score = py_get doc ''similarity'' (PInt 0),
       c_title = py_get doc ''title'' (py_get doc ''filename'' (PStr ''Unknown'')) \<rparr>"

definition chunk_item :: "'w env \<Rightarrow> pydict \<Rightarrow> combined" where
  "chunk_item env chunk =
     \<lparr> c_type = ''chunk'',
       c_source = ''vector_search'',
       c_data = RowData chunk,
       c_relevance_score = py_get chunk ''similarity'' (PInt 0),
       c_title = PStr (py_str env (py_get chunk ''filename'' (PStr ''Unknown''))
                       @ '' (chunk ''
                       @ py_str env (py_get chunk ''chunk_index'' (PInt 0))
                       @ '')'') \<rparr>"

definition kg_item_entry :: "'w env \<Rightarrow> kg_item \<Rightarrow> combined" where
  "kg_item_entry env kg =
     \<lparr> c_type = ''knowledge_graph'',
       c_source = ''graph_search'',
       c_data = KGData kg,
       c_relevance_score = PFloat 0.5,
       c_title = PStr (''KG: '' @ py_str env
                   (py_get (case kg ''source'' of None \<Rightarrow> Map.empty | Some d \<Rightarrow> d)
                      ''name'' (PStr ''Unknown relationship''))) \<rparr>"

definition combined_items :: "'w env \<Rightarrow> pydict list \<Rightarrow> pydict list \<Rightarrow> kg_item list \<Rightarrow> combined list" where
  \<comment> \<open>the list \<^verbatim>\<open>combined\<close> after the three \<^verbatim>\<open>for\<close> loops and before the sort\<close>
  "combined_items env docs chunks kg_context =
     map document_item docs @ map (chunk_item env) chunks @ map (kg_item_entry env) kg_context"

definition combine_search_results ::
  "'w env \<Rightarrow> pydict list \<Rightarrow> pydict list \<Rightarrow> kg_item list \<Rightarrow> string \<Rightarrow> py_exn + combined list" where
  \<comment> \<open>\<^verbatim>\<open>RAGSystem._combine_search_results\<close>\<close>
  "combine_search_results env docs chunks kg_context query =
     py_sort_reverse c_relevance_score (combined_items env docs chunks kg_context)"

definition hybrid_search ::
  "'w env \<Rightarrow> rag_system \<Rightarrow> string \<Rightarrow> bool \<Rightarrow> 'w state \<Rightarrow> (py_exn + search_results) \<times> 'w state" where
  \<comment> \<open>\<^verbatim>\<open>RAGSystem.hybrid_search\<close>\<close>
  "hybrid_search env rag query include_kg s =
     try_except_st
       (case search_documents env rag query 10 s of
          (Inl e, s1) \<Rightarrow> (Inl e, s1)
        | (Inr relevant_docs, s1) \<Rightarrow>
            (case search_chunks env rag query 20 s1 of
               (Inl e, s2) \<Rightarrow> (Inl e, s2)
             | (Inr relevant_chunks, s2) \<Rightarrow>
                 (case (if include_kg then search_knowledge_graph env rag query s2
                        else (Inr [], s2)) of
                    (Inl e, s3) \<Rightarrow> (Inl e, s3)
                  | (Inr kg_context, s3) \<Rightarrow>
                      (case combine_search_results env relevant_docs relevant_chunks
                              kg_context query of
                         Inl e \<Rightarrow> (Inl e, s3)
                       | Inr combined_results \<Rightarrow>
                           (Inr \<lparr> sr_documents = Some relevant_docs,
                                  sr_chunks = Some relevant_chunks,
                                  sr_knowledge_graph = Some kg_context,
                                  sr_combined_results = Some combined_results,
                                  sr_query = Some query,
                                  sr_error = None \<rparr>, s3)))))
       (\<lambda>e. case e of Exception msg \<Rightarrow>
          Inr \<lparr> sr_documents = Some [],
                sr_chunks = Some [],
                sr_knowledge_graph = Some [],
                sr_combined_results = Some [],
                sr_query = Some query,
                sr_error = Some msg \<rparr>)"

section \<open>Reasoning pipeline and query classifier (agents.py)\<close>

record agent_state =
  as_messages :: "message list"
  as_next :: string
  as_documents :: "pydict list"
  as_kg_context :: "kg_item list"
  as_analysis :: "string option"
  as_response :: string

definition py_join :: "string \<Rightarrow> string list \<Rightarrow> string" where
  \<comment> \<open>\<^verbatim>\<open>sep.join(xs)\<close>\<close>
  "py_join sep xs = (case xs of [] \<Rightarrow> [] | y # ys \<Rightarrow> y @ concat (map (\<lambda>z. sep @ z) ys))"

definition search_agent :: "'w env \<Rightarrow> agent_state \<Rightarrow> 'w state \<Rightarrow> (py_exn + agent_state) \<times> 'w state" where
  "search_agent env st s =
     (if as_messages st = [] then (Inl (Exception ''IndexError: list index out of range''), s)
      else
        (case external (CompletionCall (SearchPrompt (content (last (as_messages st))) (as_documents st)))
                (llm_invoke env (SearchPrompt (content (last (as_messages st))) (as_documents st))) s of
           (Inl e, s') \<Rightarrow> (Inl e, s')
         | (Inr response, s') \<Rightarrow>
             (Inr (st\<lparr> as_messages := as_messages st @ [AIMessage response] \<rparr>), s')))"

definition analysis_agent :: "'w env \<Rightarrow> agent_state \<Rightarrow> 'w state \<Rightarrow> (py_exn + agent_state) \<times> 'w state" where
  "analysis_agent env st s =
     (let context = py_join [CHR 10] (map content (as_messages st)) in
      case external (CompletionCall (AnalysisPrompt context (as_kg_context st)))
             (llm_invoke env (AnalysisPrompt context (as_kg_context st))) s of
        (Inl e, s') \<Rightarrow> (Inl e, s')
      | (Inr response, s') \<Rightarrow>
          (Inr (st\<lparr> as_messages := as_messages st @ [AIMessage response],
                    as_analysis := Some response \<rparr>), s'))"

definition synthesis_agent :: "'w env \<Rightarrow> agent_state \<Rightarrow> 'w state \<Rightarrow> (py_exn + agent_state) \<times> 'w state" where
  "synthesis_agent env st s =
     (case as_analysis st of
        None \<Rightarrow> (Inl (Exception ''KeyError: findings''), s)
      | Some findings \<Rightarrow>
          if as_messages st = [] then (Inl (Exception ''IndexError: list index out of range''), s)
          else
            (case external (CompletionCall (SynthesisPrompt findings (content (hd (as_messages st)))))
                    (llm_invoke env (SynthesisPrompt findings (content (hd (as_messages st))))) s of
               (Inl e, s') \<Rightarrow> (Inl e, s')
             | (Inr response, s') \<Rightarrow>
                 (Inr (st\<lparr> as_messages := as_messages st @ [AIMessage response],
                           as_response := response \<rparr>), s')))"

definition fact_checker :: "'w env \<Rightarrow> agent_state \<Rightarrow> 'w state \<Rightarrow> (py_exn + agent_state) \<times> 'w state" where
  "fact_checker env st s =
     (case external (CompletionCall (VerifyPrompt (as_response st) (as_documents st)))
             (llm_invoke env (VerifyPrompt (as_response st) (as_documents st))) s of
        (Inl e, s') \<Rightarrow> (Inl e, s')
      | (Inr response, s') \<Rightarrow>
          (Inr (st\<lparr> as_messages := as_messages st @ [AIMessage response] \<rparr>), s'))"

definition graph_invoke :: "'w env \<Rightarrow> agent_state \<Rightarrow> 'w state \<Rightarrow> (py_exn + agent_state) \<times> 'w state" where
  \<comment> \<open>the compiled workflow: START, search, analyze, synthesize, verify, END. Each node
      gets the state the node before it returned; an exception in a node ends the run.\<close>
  "graph_invoke env st0 s0 =
     (case search_agent env st0 s0 of
        (Inl e, s1) \<Rightarrow> (Inl e, s1)
      | (Inr st1, s1) \<Rightarrow>
          (case analysis_agent env st1 s1 of
             (Inl e, s2) \<Rightarrow> (Inl e, s2)
           | (Inr st2, s2) \<Rightarrow>
               (case synthesis_agent env st2 s2 of
                  (Inl e, s3) \<Rightarrow> (Inl e, s3)
                | (Inr st3, s3) \<Rightarrow> fact_checker env st3 s3)))"

record search_query =
  sq_query :: string
  sq_query_type :: pyval

record agent_result =
  ar_status :: string
  ar_result :: "string option"
  ar_error :: "string option"
  ar_query :: string
  ar_num_docs_analyzed :: "nat option"
  ar_kg_entities_considered :: "nat option"
  ar_conversation_history :: "string list option"

definition error_result :: "string \<Rightarrow> string \<Rightarrow> agent_result" where
  \<comment> \<open>\<^verbatim>\<open>{'status': 'error', 'error': msg, 'query': q}\<close>\<close>
  "error_result msg q =
     \<lparr> ar_status = ''error'', ar_result = None, ar_error = Some msg, ar_query = q,
       ar_num_docs_analyzed = None, ar_kg_entities_considered = None,
       ar_conversation_history = None \<rparr>"

definition execute_search ::
  "'w env \<Rightarrow> rag_system \<Rightarrow> search_query \<Rightarrow> pydict list \<Rightarrow> kg_item list \<Rightarrow> 'w state
     \<Rightarrow> (py_exn + agent_result) \<times> 'w state" where
  \<comment> \<open>\<^verbatim>\<open>NASAResearchAgents.execute_search\<close>\<close>
  "execute_search env rag query relevant_docs kg_context s =
     try_except_st
       (if \<not> agents_graph rag then
          (Inr (error_result ''Agent graph not initialized'' (sq_query query)), s)
        else
          let initial_state =
                \<lparr> as_messages = [HumanMessage (sq_query query)],
                  as_next = ''search'',
                  as_documents = relevant_docs,
                  as_kg_context = kg_context,
                  as_analysis = None,
                  as_response = [] \<rparr> in
          (case graph_invoke env initial_state s of
             (Inl e, s') \<Rightarrow> (Inl e, s')
           | (Inr final_state, s') \<Rightarrow>
               (Inr \<lparr> ar_status = ''success'',
                      ar_result = Some (as_response final_state),
                      ar_error = None,
                      ar_query = sq_query query,
                      ar_num_docs_analyzed = Some (length relevant_docs),
                      ar_kg_entities_considered = Some (length kg_context),
                      ar_conversation_history = Some (map content (as_messages final_state)) \<rparr>,
                s')))
       (\<lambda>e. case e of Exception msg \<Rightarrow> Inr (error_result msg (sq_query query)))"

definition re_search_greedy :: "char \<Rightarrow> char \<Rightarrow> string \<Rightarrow> string option" where
  \<comment> \<open>\<^verbatim>\<open>re.search(r'\{.*\}', text, re.DOTALL)\<close> and the same pattern with brackets:
      from the first opening character to the last closing character after it\<close>
  "re_search_greedy opening closing text =
     (let rest = dropWhile (\<lambda>c. c \<noteq> opening) text in
      if rest = [] then None
      else if closing \<in> set (tl rest)
           then Some (opening # rev (dropWhile (\<lambda>c. c \<noteq> closing) (rev (tl rest))))
           else None)"

definition factual :: "string \<Rightarrow> search_query" where
  \<comment> \<open>\<^verbatim>\<open>SearchQuery(query=query_text, query_type='factual')\<close>\<close>
  "factual query_text = \<lparr> sq_query = query_text, sq_query_type = PStr ''factual'' \<rparr>"

definition classify_query ::
  "'w env \<Rightarrow> rag_system \<Rightarrow> string \<Rightarrow> 'w state \<Rightarrow> (py_exn + search_query) \<times> 'w state" where
  \<comment> \<open>\<^verbatim>\<open>NASAResearchAgents.classify_query\<close>; the fields \<^verbatim>\<open>context\<close> and
      \<^verbatim>\<open>constraints\<close> of the result are read nowhere and are left out\<close>
  "classify_query env rag query_text s =
     try_except_st
       (if \<not> agents_llm rag then (Inr (factual query_text), s)
        else
          (case external (CompletionCall (ClassifyPrompt query_text))
                  (llm_invoke env (ClassifyPrompt query_text)) s of
             (Inl e, s') \<Rightarrow> (Inl e, s')
           | (Inr response, s') \<Rightarrow>
               (case re_search_greedy (CHR ''{'') (CHR ''}'') response of
                  None \<Rightarrow> (Inr (factual query_text), s')
                | Some json_match \<Rightarrow>
                    (case json_loads_object env json_match of
                       Inl e \<Rightarrow> (Inl e, s')
                     | Inr classification \<Rightarrow>
                         (Inr \<lparr> sq_query = query_text,
                                sq_query_type =
                                  py_get classification ''query_type'' (PStr ''factual'') \<rparr>,
                          s')))))
       (\<lambda>e. Inr (factual query_text))"

definition generate_follow_up_questions ::
  "'w env \<Rightarrow> rag_system \<Rightarrow> string \<Rightarrow> string \<Rightarrow> 'w state \<Rightarrow> (py_exn + pyval list) \<times> 'w state" where
  \<comment> \<open>\<^verbatim>\<open>NASAResearchAgents.generate_follow_up_questions\<close>\<close>
  "generate_follow_up_questions env rag query answer s =
     try_except_st
       (if \<not> agents_llm rag then (Inr [], s)
        else
          (case external (CompletionCall (FollowUpPrompt query (take 1000 answer)))
                  (llm_invoke env (FollowUpPrompt query (take 1000 answer))) s of
             (Inl e, s') \<Rightarrow> (Inl e, s')
           | (Inr response, s') \<Rightarrow>
               (case re_search_greedy (CHR ''['') (CHR '']'') response of
                  None \<Rightarrow> (Inr [], s')
                | Some json_match \<Rightarrow>
                    (case json_loads_array env json_match of
                       Inl e \<Rightarrow> (Inl e, s')
                     | Inr questions \<Rightarrow> (Inr (take 5 questions), s')))))
       (\<lambda>e. Inr [])"

section \<open>Answer composer and query orchestrator (rag_system.py)\<close>

record answer_data =
  ad_answer :: string
  ad_sources :: "source list"
  ad_follow_up_questions :: "pyval list"
  ad_query_type :: pyval
  ad_confidence :: real

definition generate_answer ::
  "'w env \<Rightarrow> rag_system \<Rightarrow> string \<Rightarrow> search_results \<Rightarrow> 'w state \<Rightarrow> (py_exn + answer_data) \<times> 'w state" where
  \<comment> \<open>\<^verbatim>\<open>RAGSystem.generate_answer\<close>\<close>
  "generate_answer env rag query sr s =
     try_except_st
       (case classify_query env rag query s of
          (Inl e, s1) \<Rightarrow> (Inl e, s1)
        | (Inr sq, s1) \<Rightarrow>
            let relevant_docs = get_list (sr_documents sr);
                kg_context = get_list (sr_knowledge_graph sr) in
            (case execute_search env rag sq relevant_docs kg_context s1 of
               (Inl e, s2) \<Rightarrow> (Inl e, s2)
             | (Inr agent_result, s2) \<Rightarrow>
                 if ar_status agent_result = ''success'' then
                   (case ar_result agent_result of
                      None \<Rightarrow> (Inl (Exception ''KeyError: result''), s2)
                    | Some answer \<Rightarrow>
                        (case generate_follow_up_questions env rag query answer s2 of
                           (Inl e, s3) \<Rightarrow> (Inl e, s3)
                         | (Inr follow_ups, s3) \<Rightarrow>
                             (case calculate_confidence sr of
                                Inl e \<Rightarrow> (Inl e, s3)
                              | Inr confidence \<Rightarrow>
                                  (Inr \<lparr> ad_answer = answer,
                                         ad_sources = extract_sources sr,
                                         ad_follow_up_questions = follow_ups,
                                         ad_query_type = sq_query_type sq,
                                         ad_confidence = confidence \<rparr>, s3))))
                 else
                   (Inr \<lparr> ad_answer = ''I encountered an error while processing your query: ''
                                        @ (case ar_error agent_result of
                                             None \<Rightarrow> ''Unknown error'' | Some msg \<Rightarrow> msg),
                          ad_sources = [],
                          ad_follow_up_questions = [],
                          ad_query_type = sq_query_type sq,
                          ad_confidence = 0.0 \<rparr>, s2)))
       (\<lambda>e. case e of Exception msg \<Rightarrow>
          Inr \<lparr> ad_answer = ''I'' @ [CHR 39] @ ''m sorry, I encountered an error while processing your query: '' @ msg,
                ad_sources = [],
                ad_follow_up_questions = [],
                ad_query_type = PStr ''unknown'',
                ad_confidence = 0.0 \<rparr>)"

record response =
  r_query :: string
  r_answer :: string
  r_sources :: "source list"
  r_follow_up_questions :: "pyval list"
  r_confidence :: real
  r_query_type :: pyval
  r_num_sources :: nat
  r_search_results :: search_results

definition empty_search_results :: search_results where
  \<comment> \<open>the empty dictionary \<^verbatim>\<open>{}\<close>\<close>
  "empty_search_results =
     \<lparr> sr_documents = None, sr_chunks = None, sr_knowledge_graph = None,
       sr_combined_results = None, sr_query = None, sr_error = None \<rparr>"

definition add_chat_message ::
  "'w env \<Rightarrow> string \<Rightarrow> string \<Rightarrow> string \<Rightarrow> source list \<Rightarrow> 'w state \<Rightarrow> (py_exn + unit) \<times> 'w state" where
  \<comment> \<open>\<^verbatim>\<open>self.db_manager.add_chat_message(session_id, role, content, sources)\<close>\<close>
  "add_chat_message env session_id role text sources s =
     external (ChatMessageCall session_id role text)
       (db_add_chat_message env session_id role text sources) s"

definition store_exchange ::
  "'w env \<Rightarrow> string option \<Rightarrow> string \<Rightarrow> answer_data \<Rightarrow> 'w state \<Rightarrow> (py_exn + unit) \<times> 'w state" where
  \<comment> \<open>the \<^verbatim>\<open>if session_id:\<close> block of \<^verbatim>\<open>ask_question\<close>; \<^verbatim>\<open>None\<close> and the empty string
      are both false\<close>
  "store_exchange env session_id query answer_data s =
     (case session_id of
        None \<Rightarrow> (Inr (), s)
      | Some sid \<Rightarrow>
          if sid = [] then (Inr (), s)
          else
            (case add_chat_message env sid ''user'' query [] s of
               (Inl e, s1) \<Rightarrow> (Inl e, s1)
             | (Inr u, s1) \<Rightarrow>
                 add_chat_message env sid ''assistant'' (ad_answer answer_data)
                   (ad_sources answer_data) s1))"

definition ask_question_body ::
  "'w env \<Rightarrow> rag_system \<Rightarrow> string \<Rightarrow> string option \<Rightarrow> 'w state \<Rightarrow> (py_exn + response) \<times> 'w state" where
  \<comment> \<open>the \<^verbatim>\<open>try\<close> block of \<^verbatim>\<open>RAGSystem.ask_question\<close>\<close>
  "ask_question_body env rag query session_id s =
     (case hybrid_search env rag query True s of
        (Inl e, s1) \<Rightarrow> (Inl e, s1)
      | (Inr search_results, s1) \<Rightarrow>
          (case generate_answer env rag query search_results s1 of
             (Inl e, s2) \<Rightarrow> (Inl e, s2)
           | (Inr answer_data, s2) \<Rightarrow>
               (case store_exchange env session_id query answer_data s2 of
                  (Inl e, s3) \<Rightarrow> (Inl e, s3)
                | (Inr u, s3) \<Rightarrow>
                    (Inr \<lparr> r_query = query,
                           r_answer = ad_answer answer_data,
                           r_sources = ad_sources answer_data,
                           r_follow_up_questions = ad_follow_up_questions answer_data,
                           r_confidence = ad_confidence answer_data,
                           r_query_type = ad_query_type answer_data,
                           r_num_sources = length (ad_sources answer_data),
                           r_search_results = search_results \<rparr>, s3))))"

definition error_response :: "string \<Rightarrow> py_exn \<Rightarrow> response" where
  \<comment> \<open>the dictionary returned by the \<^verbatim>\<open>except\<close> clause of \<^verbatim>\<open>ask_question\<close>\<close>
  "error_response query e = (case e of Exception msg \<Rightarrow>
     \<lparr> r_query = query,
       r_answer = ''I'' @ [CHR 39] @ ''m sorry, I encountered an error: '' @ msg,
       r_sources = [],
       r_follow_up_questions = [],
       r_confidence = 0.0,
       r_query_type = PStr ''error'',
       r_num_sources = 0,
       r_search_results = empty_search_results \<rparr>)"

definition ask_question ::
  "'w env \<Rightarrow> rag_system \<Rightarrow> string \<Rightarrow> string option \<Rightarrow> 'w state \<Rightarrow> (py_exn + response) \<times> 'w state" where
  \<comment> \<open>\<^verbatim>\<open>RAGSystem.ask_question\<close>\<close>
  "ask_question env rag query session_id s =
     try_except_st (ask_question_body env rag query session_id s)
       (\<lambda>e. Inr (error_response query e))"

section \<open>Chunking (document_processor.py)\<close>

text \<open>
  Strings are byte strings here: \<^verbatim>\<open>str.split()\<close> and \<^verbatim>\<open>str.strip()\<close> treat the ASCII
  whitespace characters (codes 9 to 13 and 28 to 32) as separators; whitespace outside
  ASCII is not modelled.
\<close>

definition is_space :: "char \<Rightarrow> bool" where
  "is_space c = (let n = (of_char c :: nat) in (9 \<le> n \<and> n \<le> 13) \<or> (28 \<le> n \<and> n \<le> 32))"

fun py_split_from :: "string \<Rightarrow> string \<Rightarrow> string list" where
  \<comment> \<open>first argument: the word read so far\<close>
  "py_split_from w [] = (if w = [] then [] else [w])"
| "py_split_from w (c # cs) =
     (if is_space c then (if w = [] then py_split_from [] cs else w # py_split_from [] cs)
      else py_split_from (w @ [c]) cs)"

definition py_split :: "string \<Rightarrow> string list" where
  \<comment> \<open>\<^verbatim>\<open>content.split()\<close>\<close>
  "py_split text = py_split_from [] text"

definition py_strip :: "string \<Rightarrow> string" where
  \<comment> \<open>\<^verbatim>\<open>text.strip()\<close>\<close>
  "py_strip text = rev (dropWhile is_space (rev (dropWhile is_space text)))"

definition py_slice :: "'a list \<Rightarrow> int \<Rightarrow> int \<Rightarrow> 'a list" where
  \<comment> \<open>\<^verbatim>\<open>xs[i:j]\<close>: a negative index counts from the end, and both are clamped to the list\<close>
  "py_slice xs i j =
     (let n = int (length xs);
          a = (if i < 0 then max 0 (i + n) else min i n);
          b = (if j < 0 then max 0 (j + n) else min j n)
      in take (nat (b - a)) (drop (nat a) xs))"

record chunk =
  ck_content :: string
  ck_chunk_index :: nat
  ck_chunk_type :: string
  ck_word_count :: nat

function chunk_loop :: "string list \<Rightarrow> int \<Rightarrow> int \<Rightarrow> int \<Rightarrow> chunk list \<Rightarrow> chunk list" where
  \<comment> \<open>\<^verbatim>\<open>for i in range(0, len(words), step)\<close> for a positive step, from index \<open>i\<close> on,
      with the list \<^verbatim>\<open>chunks\<close> built so far\<close>
  "chunk_loop words chunk_size step i chunks =
     (if step \<le> 0 \<or> int (length words) \<le> i then chunks
      else
        let chunk_words = py_slice words i (i + chunk_size);
            chunk_text = py_join '' '' chunk_words
        in chunk_loop words chunk_size step (i + step)
             (if py_strip chunk_text \<noteq> []
              then chunks @ [\<lparr> ck_content = chunk_text,
                               ck_chunk_index = length chunks,
                               ck_chunk_type = ''text'',
                               ck_word_count = length chunk_words \<rparr>]
              else chunks))"
  by pat_completeness auto
termination
  by (relation "measure (\<lambda>(words, chunk_size, step, i, chunks). nat (int (length words) - i))") auto

declare chunk_loop.simps [simp del]

definition chunk_document :: "string \<Rightarrow> int \<Rightarrow> int \<Rightarrow> py_exn + chunk list" where
  \<comment> \<open>\<^verbatim>\<open>DocumentProcessor.chunk_document\<close>; \<^verbatim>\<open>range\<close> raises ValueError for step 0 and
      is empty for a negative step\<close>
  "chunk_document text chunk_size overlap =
     try_except
       (let words = py_split text;
            step = chunk_size - overlap
        in if step = 0 then Inl (Exception ''ValueError: range() arg 3 must not be zero'')
           else if step < 0 then Inr []
           else Inr (chunk_loop words chunk_size step 0 []))
       (\<lambda>e. Inr [])"

section \<open>The similarity scores of a retrieval result\<close>

definition similarities :: "search_results \<Rightarrow> pyval list" where
  \<comment> \<open>the similarity scores of all retrieved documents and chunks, documents first;
      a row without the key counts as 0, as the code reads it\<close>
  "similarities sr =
     map (\<lambda>row. py_get row ''similarity'' (PInt 0))
       (get_list (sr_documents sr) @ get_list (sr_chunks sr))"

section \<open>Sample inputs\<close>

definition row_with_similarity :: "real \<Rightarrow> pydict" where
  "row_with_similarity x = map_of [(''similarity'', PFloat x)]"

definition documents_only :: "pydict list \<Rightarrow> search_results" where
  "documents_only docs =
     \<lparr> sr_documents = Some docs, sr_chunks = Some [], sr_knowledge_graph = Some [],
       sr_combined_results = Some (map document_item docs), sr_query = Some ''q'',
       sr_error = None \<rparr>"

definition sample_reply :: "prompt \<Rightarrow> string" where
  "sample_reply p = (case p of
       ClassifyPrompt q \<Rightarrow> ''factual''
     | SearchPrompt q docs \<Rightarrow> ''relevant''
     | AnalysisPrompt c kg \<Rightarrow> ''findings''
     | SynthesisPrompt a q \<Rightarrow> ''draft''
     | VerifyPrompt r docs \<Rightarrow> ''checked''
     | FollowUpPrompt q a \<Rightarrow> ''none'')"

definition sample_env :: "unit env" where
  "sample_env =
     \<lparr> py_str = (\<lambda>v. case v of PStr t \<Rightarrow> t | _ \<Rightarrow> ''0''),
       json_loads_object = (\<lambda>t. Inl (Exception ''JSONDecodeError'')),
       json_loads_array = (\<lambda>t. Inl (Exception ''JSONDecodeError'')),
       embed_content = (\<lambda>t w. (Inr (Some [1]), w)),
       db_search_similar_documents =
         (\<lambda>v n w. (Inr [row_with_similarity (9 / 10), row_with_similarity (1 / 2)], w)),
       db_search_similar_chunks = (\<lambda>v n w. (Inr [row_with_similarity (3 / 4)], w)),
       db_add_chat_message = (\<lambda>sid role text srcs w. (Inr (), w)),
       neo4j_search_graph = (\<lambda>q n w. (Inr [], w)),
       neo4j_get_entity_relationships = (\<lambda>i w. (Inr [], w)),
       llm_invoke = (\<lambda>p w. (Inr (sample_reply p), w)) \<rparr>"

definition sample_rag :: rag_system where
  "sample_rag = \<lparr> similarity_threshold = 7 / 10, neo4j_driver = True,
                  agents_llm = True, agents_graph = True \<rparr>"

definition start :: "unit state" where
  "start = \<lparr> world = (), trace = [] \<rparr>"

definition chunk_row :: pydict where
  "chunk_row = map_of [(''filename'', PStr ''a.pdf''), (''chunk_index'', PInt 3),
                       (''similarity'', PFloat (3 / 4))]"

definition nine_and_two :: search_results where
  "nine_and_two =
     \<lparr> sr_documents = Some (replicate 9 (row_with_similarity (9 / 10))),
       sr_chunks = Some [chunk_row, chunk_row],
       sr_knowledge_graph = Some [], sr_combined_results = Some [],
       sr_query = Some ''q'', sr_error = None \<rparr>"

definition relevance :: "combined \<Rightarrow> real" where
  \<comment> \<open>the relevance score of a merged item as a number\<close>
  "relevance c = (case num_of (c_relevance_score c) of Some x \<Rightarrow> x | None \<Rightarrow> 0)"

definition kg_row :: kg_item where
  "kg_row = map_of [(''source'', map_of [(''name'', PStr ''Mouse'')])]"

definition failing_env :: "unit env" where
  \<comment> \<open>every provider and store raises on every call\<close>
  "failing_env =
     \<lparr> py_str = (\<lambda>v. case v of PStr t \<Rightarrow> t | _ \<Rightarrow> ''0''),
       json_loads_object = (\<lambda>t. Inl (Exception ''JSONDecodeError'')),
       json_loads_array = (\<lambda>t. Inl (Exception ''JSONDecodeError'')),
       embed_content = (\<lambda>t w. (Inl (Exception ''unavailable''), w)),
       db_search_similar_documents = (\<lambda>v n w. (Inl (Exception ''unavailable''), w)),
       db_search_similar_chunks = (\<lambda>v n w. (Inl (Exception ''unavailable''), w)),
       db_add_chat_message = (\<lambda>sid role text srcs w. (Inl (Exception ''unavailable''), w)),
       neo4j_search_graph = (\<lambda>q n w. (Inl (Exception ''unavailable''), w)),
       neo4j_get_entity_relationships = (\<lambda>i w. (Inl (Exception ''unavailable''), w)),
       llm_invoke = (\<lambda>p w. (Inl (Exception ''unavailable''), w)) \<rparr>"

definition llm_down_env :: "unit env" where
  \<comment> \<open>the sample providers and stores, with a completion provider that raises on every call\<close>
  "llm_down_env = sample_env\<lparr> llm_invoke := (\<lambda>p w. (Inl (Exception ''unavailable''), w)) \<rparr>"

definition malformed_results :: search_results where
  \<comment> \<open>one document whose similarity is a string\<close>
  "malformed_results = documents_only [map_of [(''similarity'', PStr ''high'')]]"

section \<open>Chunk positions\<close>

lemma chunk_loop_indices:
  "map ck_chunk_index chunks = [0..<length chunks] \<Longrightarrow>
   map ck_chunk_index (chunk_loop words chunk_size step i chunks)
     = [0..<length (chunk_loop words chunk_size step i chunks)]"
proof (induction words chunk_size step i chunks rule: chunk_loop.induct)
  case (1 words chunk_size step i chunks)
  show ?case
  proof (cases "step \<le> 0 \<or> int (length words) \<le> i")
    case True
    then have "chunk_loop words chunk_size step i chunks = chunks"
      by (subst chunk_loop.simps) simp
    then show ?thesis using "1.prems" by simp
  next
    case False
    let ?cw = "py_slice words i (i + chunk_size)"
    let ?ct = "py_join '' '' ?cw"
    let ?next = "(if py_strip ?ct \<noteq> []
              then chunks @ [\<lparr> ck_content = ?ct,
                               ck_chunk_index = length chunks,
                               ck_chunk_type = ''text'',
                               ck_word_count = length ?cw \<rparr>]
              else chunks)"
    have inv: "map ck_chunk_index ?next = [0..<length ?next]"
      using "1.prems" by simp
    have step: "chunk_loop words chunk_size step i chunks
                 = chunk_loop words chunk_size step (i + step) ?next"
      using False by (subst chunk_loop.simps) (simp add: Let_def)
    from "1.IH"[OF False refl refl inv] show ?thesis
      unfolding step .
  qed
qed

text \<open>
  C9. For every content string, every chunk size and every overlap,
  \<^verbatim>\<open>chunk_document\<close> returns a list of chunks whose position indices, read in list
  order, are exactly 0, 1, ..., n - 1 for n the number of chunks: no gap and no repeat.
  This covers every non-empty content string.
\<close>

theorem chunk_document_indices:
  "\<exists>chunks. chunk_document text chunk_size overlap = Inr chunks
     \<and> map ck_chunk_index chunks = [0..<length chunks]"
proof -
  have "map ck_chunk_index (chunk_loop (py_split text) chunk_size (chunk_size - overlap) 0 [])
        = [0..<length (chunk_loop (py_split text) chunk_size (chunk_size - overlap) 0 [])]"
    by (rule chunk_loop_indices) simp
  then show ?thesis
    by (simp add: chunk_document_def try_except_def Let_def)
qed

section \<open>Confidence\<close>

lemma calculate_confidence_total:
  "\<exists>c. calculate_confidence sr = Inr c"
proof (cases "calculate_confidence_body sr")
  case (Inl e)
  then have "calculate_confidence sr = Inr 0.5"
    by (simp add: calculate_confidence_def try_except_def)
  then show ?thesis by (rule exI)
next
  case (Inr c)
  then have "calculate_confidence sr = Inr c"
    by (simp add: calculate_confidence_def try_except_def)
  then show ?thesis by (rule exI)
qed

lemma similarities_empty:
  "similarities sr = [] \<longleftrightarrow> get_list (sr_documents sr) = [] \<and> get_list (sr_chunks sr) = []"
  by (simp add: similarities_def)

section \<open>Similarity threshold\<close>

lemma py_filter_passes_threshold:
  "py_filter (passes_threshold rag) cands = Inr ys \<Longrightarrow>
   ys = filter (\<lambda>d. \<exists>x. num_of (py_get d ''similarity'' (PInt 0)) = Some x
                       \<and> similarity_threshold rag \<le> x) cands"
proof (induction cands arbitrary: ys)
  case Nil
  then show ?case by simp
next
  case (Cons d ds)
  then show ?case
    by (auto simp: passes_threshold_def py_ge_def split: sum.splits option.splits if_splits)
qed

lemma search_documents_cases:
  "fst (search_documents env rag q limit s) = Inr []
   \<or> (\<exists>v w cands w'. db_search_similar_documents env v limit w = (Inr cands, w')
        \<and> fst (search_documents env rag q limit s)
            = Inr (filter (\<lambda>d. \<exists>x. num_of (py_get d ''similarity'' (PInt 0)) = Some x
                       \<and> similarity_threshold rag \<le> x) cands))"
  unfolding search_documents_def try_except_st_def try_except_def external_def
  by (auto split: prod.splits sum.splits option.splits if_splits
           dest!: py_filter_passes_threshold)

lemma search_chunks_cases:
  "fst (search_chunks env rag q limit s) = Inr []
   \<or> (\<exists>v w cands w'. db_search_similar_chunks env v limit w = (Inr cands, w')
        \<and> fst (search_chunks env rag q limit s)
            = Inr (filter (\<lambda>d. \<exists>x. num_of (py_get d ''similarity'' (PInt 0)) = Some x
                       \<and> similarity_threshold rag \<le> x) cands))"
  unfolding search_chunks_def try_except_st_def try_except_def external_def
  by (auto split: prod.splits sum.splits option.splits if_splits
           dest!: py_filter_passes_threshold)


text \<open>
  C3. For every threshold configured on the retriever and every behaviour of the
  embedding provider and the document store, \<^verbatim>\<open>search_documents\<close> and
  \<^verbatim>\<open>search_chunks\<close> return a list (they never raise), every returned row has a
  numeric similarity that is at least the threshold, and the list is either empty or
  exactly the store's candidates whose similarity reaches the threshold, in the store's
  order. So no candidate below the threshold ever appears. A row without the key is read
  with similarity 0, as the code does.
\<close>

theorem vector_search_respects_threshold:
  "(\<exists>docs. fst (search_documents env rag q limit s) = Inr docs
      \<and> (\<forall>d\<in>set docs. \<exists>x. num_of (py_get d ''similarity'' (PInt 0)) = Some x
                            \<and> similarity_threshold rag \<le> x)
      \<and> (docs = [] \<or>
          (\<exists>v w cands w'. db_search_similar_documents env v limit w = (Inr cands, w')
             \<and> docs = filter (\<lambda>d. \<exists>x. num_of (py_get d ''similarity'' (PInt 0)) = Some x
                                       \<and> similarity_threshold rag \<le> x) cands)))
   \<and> (\<exists>chunks. fst (search_chunks env rag q limit s) = Inr chunks
      \<and> (\<forall>c\<in>set chunks. \<exists>x. num_of (py_get c ''similarity'' (PInt 0)) = Some x
                            \<and> similarity_threshold rag \<le> x)
      \<and> (chunks = [] \<or>
          (\<exists>v w cands w'. db_search_similar_chunks env v limit w = (Inr cands, w')
             \<and> chunks = filter (\<lambda>d. \<exists>x. num_of (py_get d ''similarity'' (PInt 0)) = Some x
                                       \<and> similarity_threshold rag \<le> x) cands)))"
proof (rule conjI)
  show "\<exists>docs. fst (search_documents env rag q limit s) = Inr docs
      \<and> (\<forall>d\<in>set docs. \<exists>x. num_of (py_get d ''similarity'' (PInt 0)) = Some x
                            \<and> similarity_threshold rag \<le> x)
      \<and> (docs = [] \<or>
          (\<exists>v w cands w'. db_search_similar_documents env v limit w = (Inr cands, w')
             \<and> docs = filter (\<lambda>d. \<exists>x. num_of (py_get d ''similarity'' (PInt 0)) = Some x
                                       \<and> similarity_threshold rag \<le> x) cands))"
    using search_documents_cases[of env rag q limit s] by (elim disjE exE conjE) auto
next
  show "\<exists>chunks. fst (search_chunks env rag q limit s) = Inr chunks
      \<and> (\<forall>c\<in>set chunks. \<exists>x. num_of (py_get c ''similarity'' (PInt 0)) = Some x
                            \<and> similarity_threshold rag \<le> x)
      \<and> (chunks = [] \<or>
          (\<exists>v w cands w'. db_search_similar_chunks env v limit w = (Inr cands, w')
             \<and> chunks = filter (\<lambda>d. \<exists>x. num_of (py_get d ''similarity'' (PInt 0)) = Some x
                                       \<and> similarity_threshold rag \<le> x) cands))"
    using search_chunks_cases[of env rag q limit s] by (elim disjE exE conjE) auto
qed

lemma similarity_of_row [simp]:
  "py_get (row_with_similarity x) ''similarity'' (PInt 0) = PFloat x"
  by (simp add: row_with_similarity_def py_get_def)

lemma generate_embeddings_sample:
  "generate_embeddings sample_env t s = (Inr (Some [1]), s\<lparr> trace := trace s @ [EmbedCall t] \<rparr>)"
  by (simp add: generate_embeddings_def try_except_st_def try_except_def external_def sample_env_def)

lemma search_documents_sample:
  "fst (search_documents sample_env sample_rag q limit s) = Inr [row_with_similarity (9 / 10)]"
  by (simp add: search_documents_def generate_embeddings_sample try_except_st_def try_except_def
      external_def passes_threshold_def py_ge_def)
     (simp add: sample_env_def sample_rag_def passes_threshold_def py_ge_def)

lemma search_chunks_sample:
  "fst (search_chunks sample_env sample_rag q limit s) = Inr [row_with_similarity (3 / 4)]"
  by (simp add: search_chunks_def generate_embeddings_sample try_except_st_def try_except_def
      external_def passes_threshold_def py_ge_def)
     (simp add: sample_env_def sample_rag_def passes_threshold_def py_ge_def)

text \<open>
  Threshold 0.7, document candidates 0.9 and 0.5, chunk candidate 0.75: only the
  rows at 0.9 and 0.75 come back.
\<close>

theorem vector_search_respects_threshold_witness:
  "fst (search_documents sample_env sample_rag ''q'' 10 start) = Inr [row_with_similarity (9 / 10)]
   \<and> similarity_threshold sample_rag \<le> 9 / 10
   \<and> fst (search_chunks sample_env sample_rag ''q'' 10 start) = Inr [row_with_similarity (3 / 4)]
   \<and> similarity_threshold sample_rag \<le> 3 / 4"
proof -
  from vector_search_respects_threshold[of sample_env sample_rag "''q''" 10 start]
  obtain docs chunks where
    d: "fst (search_documents sample_env sample_rag ''q'' 10 start) = Inr docs"
       "\<forall>d\<in>set docs. \<exists>x. num_of (py_get d ''similarity'' (PInt 0)) = Some x
                            \<and> similarity_threshold sample_rag \<le> x" and
    c: "fst (search_chunks sample_env sample_rag ''q'' 10 start) = Inr chunks"
       "\<forall>c\<in>set chunks. \<exists>x. num_of (py_get c ''similarity'' (PInt 0)) = Some x
                            \<and> similarity_threshold sample_rag \<le> x"
    by blast
  have docs: "docs = [row_with_similarity (9 / 10)]"
    using d(1) by (simp add: search_documents_sample)
  have chunks: "chunks = [row_with_similarity (3 / 4)]"
    using c(1) by (simp add: search_chunks_sample)
  have t1: "similarity_threshold sample_rag \<le> 9 / 10" using d(2) unfolding docs by auto
  have t2: "similarity_threshold sample_rag \<le> 3 / 4" using c(2) unfolding chunks by auto
  show ?thesis using d(1) c(1) t1 t2 unfolding docs chunks by simp
qed

section \<open>Source list\<close>

text \<open>
  C5. For every retrieval result, the source list is the first 10 entries of: one entry
  per retrieved document, in the order the documents came in, followed by one entry per
  retrieved chunk, in the order the chunks came in. Entry i is built from document i, or
  from chunk i - (number of documents), so nothing is sorted by score. An entry's title
  is the row's title when the row has that key and its filename (or \<^verbatim>\<open>'Unknown'\<close>)
  when it has not; a chunk entry carries the chunk's position index, a document entry has
  no such key.
\<close>

theorem extract_sources_order:
  "length (extract_sources sr) \<le> 10
   \<and> extract_sources sr
       = take 10 (map document_source (get_list (sr_documents sr))
                  @ map chunk_source (get_list (sr_chunks sr)))
   \<and> (\<forall>i < length (extract_sources sr).
         extract_sources sr ! i
           = (if i < length (get_list (sr_documents sr))
              then document_source (get_list (sr_documents sr) ! i)
              else chunk_source (get_list (sr_chunks sr) ! (i - length (get_list (sr_documents sr))))))
   \<and> (\<forall>row. src_type (document_source row) = ''document''
            \<and> src_type (chunk_source row) = ''chunk''
            \<and> src_chunk_index (document_source row) = None
            \<and> src_chunk_index (chunk_source row) = Some (py_get row ''chunk_index'' (PInt 0))
            \<and> (row ''title'' = None \<longrightarrow>
                 src_title (document_source row) = py_get row ''filename'' (PStr ''Unknown'')
                 \<and> src_title (chunk_source row) = py_get row ''filename'' (PStr ''Unknown''))
            \<and> (\<forall>t. row ''title'' = Some t \<longrightarrow>
                 src_title (document_source row) = t \<and> src_title (chunk_source row) = t))"
proof (intro conjI allI impI)
  show "length (extract_sources sr) \<le> 10" by (simp add: extract_sources_def)
next
  show "extract_sources sr
       = take 10 (map document_source (get_list (sr_documents sr))
                  @ map chunk_source (get_list (sr_chunks sr)))"
    by (simp add: extract_sources_def)
next
  fix i assume i: "i < length (extract_sources sr)"
  let ?docs = "get_list (sr_documents sr)" and ?chunks = "get_list (sr_chunks sr)"
  have len: "i < length ?docs + length ?chunks" and i10: "i < 10"
    using i by (simp_all add: extract_sources_def)
  have "extract_sources sr ! i = (map document_source ?docs @ map chunk_source ?chunks) ! i"
    unfolding extract_sources_def using i10 by (rule nth_take)
  also have "\<dots> = (if i < length ?docs then document_source (?docs ! i)
                   else chunk_source (?chunks ! (i - length ?docs)))"
    using len by (simp add: nth_append)
  finally show "extract_sources sr ! i
           = (if i < length ?docs then document_source (?docs ! i)
              else chunk_source (?chunks ! (i - length ?docs)))" .
qed (simp_all add: document_source_def chunk_source_def py_get_def)

text \<open>
  Nine documents and two chunks: ten sources, the tenth is the first chunk, titled by
  its filename and carrying its position 3.
\<close>

theorem extract_sources_order_witness:
  "length (extract_sources nine_and_two) = 10
   \<and> extract_sources nine_and_two ! 9 = chunk_source chunk_row
   \<and> src_title (chunk_source chunk_row) = PStr ''a.pdf''
   \<and> src_chunk_index (chunk_source chunk_row) = Some (PInt 3)"
proof -
  have len: "length (extract_sources nine_and_two) = 10"
    by (simp add: extract_sources_def nine_and_two_def get_list_def)
  have docs: "get_list (sr_documents nine_and_two) = replicate 9 (row_with_similarity (9 / 10))"
    and chunks: "get_list (sr_chunks nine_and_two) = [chunk_row, chunk_row]"
    by (simp_all add: nine_and_two_def get_list_def)
  have notitle: "chunk_row ''title'' = None" by (simp add: chunk_row_def)
  from extract_sources_order[of nine_and_two]
  have nth: "\<forall>i < length (extract_sources nine_and_two).
         extract_sources nine_and_two ! i
           = (if i < length (get_list (sr_documents nine_and_two))
              then document_source (get_list (sr_documents nine_and_two) ! i)
              else chunk_source (get_list (sr_chunks nine_and_two)
                     ! (i - length (get_list (sr_documents nine_and_two)))))"
    and title: "src_title (chunk_source chunk_row) = py_get chunk_row ''filename'' (PStr ''Unknown'')"
    and idx: "src_chunk_index (chunk_source chunk_row) = Some (py_get chunk_row ''chunk_index'' (PInt 0))"
    using notitle by blast+
  have "extract_sources nine_and_two ! 9 = chunk_source chunk_row"
    using nth[rule_format, of 9] len by (simp add: docs chunks)
  moreover have "py_get chunk_row ''filename'' (PStr ''Unknown'') = PStr ''a.pdf''"
    and "py_get chunk_row ''chunk_index'' (PInt 0) = PInt 3"
    by (simp_all add: chunk_row_def py_get_def)
  ultimately show ?thesis using len title idx by simp
qed

section \<open>Merged evidence\<close>

lemma py_lt_numeric:
  "num_of a = Some x \<Longrightarrow> num_of b = Some y \<Longrightarrow> py_lt a b = Inr (x < y)"
  by (cases a; cases b) (simp_all add: py_lt_def)

lemma insort_desc_numeric:
  assumes "\<forall>z\<in>set (x # ys). num_of (key z) \<noteq> None"
  shows "insort_desc key x ys
         = Inr (insort_key (\<lambda>z. - (case num_of (key z) of Some r \<Rightarrow> r | None \<Rightarrow> 0)) x ys)"
  using assms
proof (induction ys)
  case Nil
  then show ?case by simp
next
  case (Cons y ys)
  from Cons.prems obtain a b where ab: "num_of (key x) = Some a" "num_of (key y) = Some b"
    by auto
  have IH: "insort_desc key x ys
         = Inr (insort_key (\<lambda>z. - (case num_of (key z) of Some r \<Rightarrow> r | None \<Rightarrow> 0)) x ys)"
    using Cons by simp
  show ?case
    by (simp add: py_lt_numeric[OF ab] ab IH not_less)
qed

lemma py_sort_reverse_numeric:
  assumes "\<forall>z\<in>set xs. num_of (key z) \<noteq> None"
  shows "py_sort_reverse key xs
         = Inr (sort_key (\<lambda>z. - (case num_of (key z) of Some r \<Rightarrow> r | None \<Rightarrow> 0)) xs)"
  using assms
proof (induction xs)
  case Nil
  then show ?case by simp
next
  case (Cons x xs)
  let ?f = "\<lambda>z. - (case num_of (key z) of Some r \<Rightarrow> r | None \<Rightarrow> 0)"
  have IH: "py_sort_reverse key xs = Inr (sort_key ?f xs)" using Cons by simp
  have "\<forall>z\<in>set (x # sort_key ?f xs). num_of (key z) \<noteq> None" using Cons.prems by simp
  then have "insort_desc key x (sort_key ?f xs) = Inr (insort_key ?f x (sort_key ?f xs))"
    by (rule insort_desc_numeric)
  then show ?case by (simp add: IH)
qed

lemma combined_items_kg_score:
  "c \<in> set (combined_items env docs chunks kg) \<Longrightarrow> c_type c = ''knowledge_graph'' \<Longrightarrow>
   c_relevance_score c = PFloat 0.5"
  by (auto simp: combined_items_def document_item_def chunk_item_def kg_item_entry_def)

lemma combined_items_numeric:
  assumes "\<forall>row\<in>set (docs @ chunks). num_of (py_get row ''similarity'' (PInt 0)) \<noteq> None"
  shows "\<forall>c\<in>set (combined_items env docs chunks kg). num_of (c_relevance_score c) \<noteq> None"
proof
  fix c assume "c \<in> set (combined_items env docs chunks kg)"
  then consider d where "d \<in> set docs" "c = document_item d"
    | ch where "ch \<in> set chunks" "c = chunk_item env ch"
    | k where "k \<in> set kg" "c = kg_item_entry env k"
    by (auto simp: combined_items_def)
  then show "num_of (c_relevance_score c) \<noteq> None"
  proof cases
    case 1
    then show ?thesis using assms by (simp add: document_item_def)
  next
    case 2
    then show ?thesis using assms by (simp add: chunk_item_def)
  next
    case 3
    then show ?thesis by (simp add: kg_item_entry_def)
  qed
qed

lemma combine_search_results_sorted:
  assumes "\<forall>row\<in>set (docs @ chunks). num_of (py_get row ''similarity'' (PInt 0)) \<noteq> None"
  shows "\<exists>cs. combine_search_results env docs chunks kg q = Inr cs
     \<and> (\<forall>c\<in>set cs. c_type c = ''knowledge_graph'' \<longrightarrow> c_relevance_score c = PFloat 0.5)
     \<and> sorted_wrt (\<lambda>a b. relevance b \<le> relevance a) cs
     \<and> (\<forall>v. filter (\<lambda>c. relevance c = v) cs
             = filter (\<lambda>c. relevance c = v) (combined_items env docs chunks kg))"
proof -
  let ?items = "combined_items env docs chunks kg"
  let ?f = "\<lambda>c. - relevance c"
  let ?cs = "sort_key ?f ?items"
  have f: "?f = (\<lambda>z. - (case num_of (c_relevance_score z) of Some r \<Rightarrow> r | None \<Rightarrow> 0))"
    by (simp add: relevance_def)
  have res: "combine_search_results env docs chunks kg q = Inr ?cs"
    unfolding combine_search_results_def f
    by (rule py_sort_reverse_numeric) (rule combined_items_numeric[OF assms])
  have kgs: "\<forall>c\<in>set ?cs. c_type c = ''knowledge_graph'' \<longrightarrow> c_relevance_score c = PFloat 0.5"
    using combined_items_kg_score[of _ env docs chunks kg] by simp
  have "sorted (map ?f ?cs)" by (rule sorted_sort_key)
  then have srt: "sorted_wrt (\<lambda>a b. relevance b \<le> relevance a) ?cs"
    by (simp add: sorted_map)
  have stab: "\<forall>v. filter (\<lambda>c. relevance c = v) ?cs = filter (\<lambda>c. relevance c = v) ?items"
  proof
    fix v
    have "filter (\<lambda>c. ?f c = - v) ?cs = filter (\<lambda>c. ?f c = - v) ?items"
      by (rule sort_key_stable)
    then show "filter (\<lambda>c. relevance c = v) ?cs = filter (\<lambda>c. relevance c = v) ?items"
      by simp
  qed
  from res kgs srt stab show ?thesis by blast
qed


lemma try_except_st_total:
  "\<exists>v s'. try_except_st b (\<lambda>e. Inr (h e)) = (Inr v, s')"
  by (cases b; cases "fst b") (auto simp: try_except_st_def try_except_def)

lemma search_knowledge_graph_total:
  "\<exists>kg s'. search_knowledge_graph env rag q s = (Inr kg, s')"
  unfolding search_knowledge_graph_def by (rule try_except_st_total)

lemma search_documents_numeric:
  "\<exists>docs s'. search_documents env rag q limit s = (Inr docs, s')
     \<and> (\<forall>d\<in>set docs. num_of (py_get d ''similarity'' (PInt 0)) \<noteq> None)"
  using search_documents_cases[of env rag q limit s]
  by (cases "search_documents env rag q limit s") auto

lemma search_chunks_numeric:
  "\<exists>chunks s'. search_chunks env rag q limit s = (Inr chunks, s')
     \<and> (\<forall>d\<in>set chunks. num_of (py_get d ''similarity'' (PInt 0)) \<noteq> None)"
  using search_chunks_cases[of env rag q limit s]
  by (cases "search_chunks env rag q limit s") auto

lemma hybrid_search_result:
  "\<exists>docs chunks kg cs s'.
     hybrid_search env rag q include_kg s
       = (Inr \<lparr> sr_documents = Some docs, sr_chunks = Some chunks,
                sr_knowledge_graph = Some kg, sr_combined_results = Some cs,
                sr_query = Some q, sr_error = None \<rparr>, s')
     \<and> (\<forall>row\<in>set (docs @ chunks). num_of (py_get row ''similarity'' (PInt 0)) \<noteq> None)
     \<and> combine_search_results env docs chunks kg q = Inr cs"
proof -
  obtain docs s1 where d: "search_documents env rag q 10 s = (Inr docs, s1)"
      "\<forall>d\<in>set docs. num_of (py_get d ''similarity'' (PInt 0)) \<noteq> None"
    using search_documents_numeric by blast
  obtain chunks s2 where c: "search_chunks env rag q 20 s1 = (Inr chunks, s2)"
      "\<forall>d\<in>set chunks. num_of (py_get d ''similarity'' (PInt 0)) \<noteq> None"
    using search_chunks_numeric by blast
  obtain kg s3 where k: "(if include_kg then search_knowledge_graph env rag q s2
                          else (Inr [], s2)) = (Inr kg, s3)"
    using search_knowledge_graph_total[of env rag q s2] by (cases include_kg) auto
  have num: "\<forall>row\<in>set (docs @ chunks). num_of (py_get row ''similarity'' (PInt 0)) \<noteq> None"
    using d(2) c(2) by auto
  then obtain cs where cs: "combine_search_results env docs chunks kg q = Inr cs"
    using combine_search_results_sorted[of docs chunks env kg q] by blast
  have "hybrid_search env rag q include_kg s
       = (Inr \<lparr> sr_documents = Some docs, sr_chunks = Some chunks,
                sr_knowledge_graph = Some kg, sr_combined_results = Some cs,
                sr_query = Some q, sr_error = None \<rparr>, s3)"
    unfolding hybrid_search_def
    by (simp only: d(1) c(1) k cs prod.case sum.case try_except_st_def try_except_def)
  then show ?thesis using num cs by blast
qed


text \<open>
  C6. Whenever the similarity scores of the documents and chunks are numbers,
  \<^verbatim>\<open>_combine_search_results\<close> returns a list in which every knowledge-graph item has
  the fixed relevance score 0.5, the items are in descending order of relevance score,
  and for every score the items with that score are in the order in which they were put
  in (documents, then chunks, then knowledge-graph items): the sort is stable and loses or
  adds nothing. The retriever's \<^verbatim>\<open>hybrid_search\<close> always returns a result whose merged
  list has these three properties with respect to its own document, chunk and
  knowledge-graph lists. The merge is a function of its inputs, so two merges of the same
  inputs give the same order.
\<close>

theorem merged_evidence_sorted_stable:
  "((\<forall>row\<in>set (docs @ chunks). num_of (py_get row ''similarity'' (PInt 0)) \<noteq> None) \<longrightarrow>
      (\<exists>cs. combine_search_results env docs chunks kg q = Inr cs
         \<and> (\<forall>c\<in>set cs. c_type c = ''knowledge_graph'' \<longrightarrow> c_relevance_score c = PFloat 0.5)
         \<and> sorted_wrt (\<lambda>a b. relevance b \<le> relevance a) cs
         \<and> (\<forall>v. filter (\<lambda>c. relevance c = v) cs
                 = filter (\<lambda>c. relevance c = v) (combined_items env docs chunks kg))))
   \<and> (\<exists>sr. fst (hybrid_search env rag q include_kg s) = Inr sr
         \<and> (\<forall>c\<in>set (get_list (sr_combined_results sr)).
               c_type c = ''knowledge_graph'' \<longrightarrow> c_relevance_score c = PFloat 0.5)
         \<and> sorted_wrt (\<lambda>a b. relevance b \<le> relevance a) (get_list (sr_combined_results sr))
         \<and> (\<forall>v. filter (\<lambda>c. relevance c = v) (get_list (sr_combined_results sr))
                 = filter (\<lambda>c. relevance c = v)
                     (combined_items env (get_list (sr_documents sr))
                        (get_list (sr_chunks sr)) (get_list (sr_knowledge_graph sr)))))"
proof (intro conjI impI)
  assume "\<forall>row\<in>set (docs @ chunks). num_of (py_get row ''similarity'' (PInt 0)) \<noteq> None"
  then show "\<exists>cs. combine_search_results env docs chunks kg q = Inr cs
         \<and> (\<forall>c\<in>set cs. c_type c = ''knowledge_graph'' \<longrightarrow> c_relevance_score c = PFloat 0.5)
         \<and> sorted_wrt (\<lambda>a b. relevance b \<le> relevance a) cs
         \<and> (\<forall>v. filter (\<lambda>c. relevance c = v) cs
                 = filter (\<lambda>c. relevance c = v) (combined_items env docs chunks kg))"
    by (rule combine_search_results_sorted)
next
  obtain ds chs kgs cs s' where
    h: "hybrid_search env rag q include_kg s
       = (Inr \<lparr> sr_documents = Some ds, sr_chunks = Some chs,
                sr_knowledge_graph = Some kgs, sr_combined_results = Some cs,
                sr_query = Some q, sr_error = None \<rparr>, s')"
    and num: "\<forall>row\<in>set (ds @ chs). num_of (py_get row ''similarity'' (PInt 0)) \<noteq> None"
    and res: "combine_search_results env ds chs kgs q = Inr cs"
    using hybrid_search_result[of env rag q include_kg s] by blast
  from combine_search_results_sorted[OF num, of env kgs q] res
  have "(\<forall>c\<in>set cs. c_type c = ''knowledge_graph'' \<longrightarrow> c_relevance_score c = PFloat 0.5)
         \<and> sorted_wrt (\<lambda>a b. relevance b \<le> relevance a) cs
         \<and> (\<forall>v. filter (\<lambda>c. relevance c = v) cs
                 = filter (\<lambda>c. relevance c = v) (combined_items env ds chs kgs))"
    by auto
  then show "\<exists>sr. fst (hybrid_search env rag q include_kg s) = Inr sr
         \<and> (\<forall>c\<in>set (get_list (sr_combined_results sr)).
               c_type c = ''knowledge_graph'' \<longrightarrow> c_relevance_score c = PFloat 0.5)
         \<and> sorted_wrt (\<lambda>a b. relevance b \<le> relevance a) (get_list (sr_combined_results sr))
         \<and> (\<forall>v. filter (\<lambda>c. relevance c = v) (get_list (sr_combined_results sr))
                 = filter (\<lambda>c. relevance c = v)
                     (combined_items env (get_list (sr_documents sr))
                        (get_list (sr_chunks sr)) (get_list (sr_knowledge_graph sr))))"
    by (simp add: h get_list_def)
qed

lemma combine_sample:
  "combine_search_results sample_env
     [row_with_similarity (1 / 2), row_with_similarity (9 / 10)] [chunk_row] [kg_row] ''q''
   = Inr [document_item (row_with_similarity (9 / 10)), chunk_item sample_env chunk_row,
          document_item (row_with_similarity (1 / 2)), kg_item_entry sample_env kg_row]"
proof -
  have s1: "c_relevance_score (document_item (row_with_similarity x)) = PFloat x" for x
    by (simp add: document_item_def)
  have s2: "c_relevance_score (chunk_item sample_env chunk_row) = PFloat (3 / 4)"
    by (simp add: chunk_item_def chunk_row_def py_get_def)
  have s3: "c_relevance_score (kg_item_entry sample_env kg_row) = PFloat (1 / 2)"
    by (simp add: kg_item_entry_def)
  show ?thesis
    by (simp add: combine_search_results_def combined_items_def s1 s2 s3 py_lt_def)
qed

text \<open>
  Documents at 0.5 and 0.9, a chunk at 0.75 and one knowledge-graph item: the order is
  0.9, 0.75, then the document at 0.5 before the knowledge-graph item at 0.5.
\<close>

theorem merged_evidence_sorted_stable_witness:
  "combine_search_results sample_env
     [row_with_similarity (1 / 2), row_with_similarity (9 / 10)] [chunk_row] [kg_row] ''q''
   = Inr [document_item (row_with_similarity (9 / 10)), chunk_item sample_env chunk_row,
          document_item (row_with_similarity (1 / 2)), kg_item_entry sample_env kg_row]
   \<and> c_relevance_score (kg_item_entry sample_env kg_row) = PFloat 0.5
   \<and> relevance (kg_item_entry sample_env kg_row) \<le> relevance (document_item (row_with_similarity (1 / 2)))"
proof -
  let ?docs = "[row_with_similarity (1 / 2), row_with_similarity (9 / 10)]"
  have c: "py_get chunk_row ''similarity'' (PInt 0) = PFloat (3 / 4)"
    by (simp add: chunk_row_def py_get_def)
  have num: "\<forall>row\<in>set (?docs @ [chunk_row]). num_of (py_get row ''similarity'' (PInt 0)) \<noteq> None"
    by (simp add: c del: not_None_eq)
  from merged_evidence_sorted_stable[of ?docs "[chunk_row]" sample_env "[kg_row]" "''q''"] num
  obtain cs where cs: "combine_search_results sample_env ?docs [chunk_row] [kg_row] ''q'' = Inr cs"
      "\<forall>c\<in>set cs. c_type c = ''knowledge_graph'' \<longrightarrow> c_relevance_score c = PFloat 0.5"
      "sorted_wrt (\<lambda>a b. relevance b \<le> relevance a) cs"
    by blast
  have eq: "cs = [document_item (row_with_similarity (9 / 10)), chunk_item sample_env chunk_row,
          document_item (row_with_similarity (1 / 2)), kg_item_entry sample_env kg_row]"
    using cs(1) by (simp add: combine_sample)
  have kgt: "c_type (kg_item_entry sample_env kg_row) = ''knowledge_graph''"
    by (simp add: kg_item_entry_def)
  have a: "c_relevance_score (kg_item_entry sample_env kg_row) = PFloat 0.5"
    using cs(2) kgt unfolding eq by simp
  have b: "relevance (kg_item_entry sample_env kg_row)
           \<le> relevance (document_item (row_with_similarity (1 / 2)))"
    using cs(3) unfolding eq by simp
  show ?thesis using cs(1) a b unfolding eq by simp
qed

section \<open>Calls to the embedding provider\<close>

lemma embed_texts_append: "embed_texts (xs @ ys) = embed_texts xs @ embed_texts ys"
  by (induction xs rule: embed_texts.induct) simp_all

lemma completion_prompts_append:
  "completion_prompts (xs @ ys) = completion_prompts xs @ completion_prompts ys"
  by (induction xs rule: completion_prompts.induct) simp_all

lemma external_trace:
  "external c f s = (r, s') \<Longrightarrow> trace s' = trace s @ [c]"
  by (auto simp: external_def split: prod.splits)

lemma try_except_st_snd: "snd (try_except_st b h) = snd b"
  by (cases b) (simp add: try_except_st_def)

lemma generate_embeddings_trace:
  "generate_embeddings env t s = (r, s') \<Longrightarrow> trace s' = trace s @ [EmbedCall t]"
proof -
  assume a: "generate_embeddings env t s = (r, s')"
  obtain r0 s0 where e: "external (EmbedCall t) (embed_content env t) s = (r0, s0)"
    by (cases "external (EmbedCall t) (embed_content env t) s")
  have "s' = s0"
    using a e
    by (auto simp: generate_embeddings_def try_except_st_def
             split: sum.splits option.splits if_splits)
  then show ?thesis using external_trace[OF e] by simp
qed

lemma search_documents_trace:
  assumes "search_documents env rag q limit s = (r, s')"
  shows "\<exists>cs. trace s' = trace s @ EmbedCall q # cs
               \<and> embed_texts cs = [] \<and> completion_prompts cs = []"
proof -
  obtain r1 s1 where g: "generate_embeddings env q s = (r1, s1)"
    by (cases "generate_embeddings env q s")
  have t1: "trace s1 = trace s @ [EmbedCall q]" by (rule generate_embeddings_trace[OF g])
  show ?thesis
  proof (cases "\<exists>v. r1 = Inr (Some v) \<and> v \<noteq> []")
    case True
    then obtain v where v: "r1 = Inr (Some v)" "v \<noteq> []" by blast
    obtain r2 s2 where x: "external (DocumentSearchCall limit)
                             (db_search_similar_documents env v limit) s1 = (r2, s2)"
      by (cases "external (DocumentSearchCall limit) (db_search_similar_documents env v limit) s1")
    have "s' = s2"
      using assms g v x
      by (auto simp: search_documents_def try_except_st_def split: sum.splits)
    then have "trace s' = trace s @ EmbedCall q # [DocumentSearchCall limit]"
      using external_trace[OF x] t1 by simp
    then show ?thesis by simp
  next
    case False
    then have "s' = s1"
      using assms g
      by (auto simp: search_documents_def try_except_st_def
               split: sum.splits option.splits if_splits)
    then have "trace s' = trace s @ EmbedCall q # []" using t1 by simp
    then show ?thesis by simp
  qed
qed

lemma search_chunks_trace:
  assumes "search_chunks env rag q limit s = (r, s')"
  shows "\<exists>cs. trace s' = trace s @ EmbedCall q # cs
               \<and> embed_texts cs = [] \<and> completion_prompts cs = []"
proof -
  obtain r1 s1 where g: "generate_embeddings env q s = (r1, s1)"
    by (cases "generate_embeddings env q s")
  have t1: "trace s1 = trace s @ [EmbedCall q]" by (rule generate_embeddings_trace[OF g])
  show ?thesis
  proof (cases "\<exists>v. r1 = Inr (Some v) \<and> v \<noteq> []")
    case True
    then obtain v where v: "r1 = Inr (Some v)" "v \<noteq> []" by blast
    obtain r2 s2 where x: "external (ChunkSearchCall limit)
                             (db_search_similar_chunks env v limit) s1 = (r2, s2)"
      by (cases "external (ChunkSearchCall limit) (db_search_similar_chunks env v limit) s1")
    have "s' = s2"
      using assms g v x
      by (auto simp: search_chunks_def try_except_st_def split: sum.splits)
    then have "trace s' = trace s @ EmbedCall q # [ChunkSearchCall limit]"
      using external_trace[OF x] t1 by simp
    then show ?thesis by simp
  next
    case False
    then have "s' = s1"
      using assms g
      by (auto simp: search_chunks_def try_except_st_def
               split: sum.splits option.splits if_splits)
    then have "trace s' = trace s @ EmbedCall q # []" using t1 by simp
    then show ?thesis by simp
  qed
qed

lemma collect_relationships_trace:
  "collect_relationships env ents acc s = (r, s') \<Longrightarrow>
   \<exists>cs. trace s' = trace s @ cs \<and> embed_texts cs = [] \<and> completion_prompts cs = []"
proof (induction ents arbitrary: acc s)
  case Nil
  then show ?case by simp
next
  case (Cons ent ents)
  show ?case
  proof (cases "\<exists>d. e_type ent = Some (PStr ''entity'') \<and> e_data ent = Some d
                    \<and> py_truthy (py_get d ''id'' PNone)")
    case True
    then obtain d where d: "e_type ent = Some (PStr ''entity'')" "e_data ent = Some d"
        "py_truthy (py_get d ''id'' PNone)" by blast
    obtain r1 s1 where x: "external (RelationshipsCall (py_get d ''id'' PNone))
             (neo4j_get_entity_relationships env (py_get d ''id'' PNone)) s = (r1, s1)"
      by (cases "external (RelationshipsCall (py_get d ''id'' PNone))
             (neo4j_get_entity_relationships env (py_get d ''id'' PNone)) s")
    have t1: "trace s1 = trace s @ [RelationshipsCall (py_get d ''id'' PNone)]"
      by (rule external_trace[OF x])
    show ?thesis
    proof (cases r1)
      case (Inl e)
      then have "s' = s1" using Cons.prems d x by (simp add: Let_def)
      then show ?thesis using t1 by simp
    next
      case (Inr rels)
      then have "collect_relationships env ents (acc @ rels) s1 = (r, s')"
        using Cons.prems d x by (simp add: Let_def)
      from Cons.IH[OF this] obtain cs where
        "trace s' = trace s1 @ cs" "embed_texts cs = []" "completion_prompts cs = []" by blast
      then have "trace s' = trace s @ (RelationshipsCall (py_get d ''id'' PNone) # cs)
                 \<and> embed_texts (RelationshipsCall (py_get d ''id'' PNone) # cs) = []
                 \<and> completion_prompts (RelationshipsCall (py_get d ''id'' PNone) # cs) = []"
        using t1 by simp
      then show ?thesis by blast
    qed
  next
    case False
    then have "s' = s \<or> collect_relationships env ents acc s = (r, s')"
      using Cons.prems by (auto simp: Let_def split: option.splits if_splits)
    then show ?thesis
    proof
      assume "s' = s"
      then have "trace s' = trace s @ [] \<and> embed_texts [] = [] \<and> completion_prompts [] = []"
        by simp
      then show ?thesis by blast
    next
      assume "collect_relationships env ents acc s = (r, s')"
      then show ?thesis by (rule Cons.IH)
    qed
  qed
qed

lemma search_knowledge_graph_trace:
  assumes "search_knowledge_graph env rag q s = (r, s')"
  shows "\<exists>cs. trace s' = trace s @ cs \<and> embed_texts cs = [] \<and> completion_prompts cs = []"
proof (cases "neo4j_driver rag")
  case False
  then have "s' = s" using assms
    by (simp add: search_knowledge_graph_def try_except_st_def)
  then have "trace s' = trace s @ [] \<and> embed_texts [] = [] \<and> completion_prompts [] = []"
    by simp
  then show ?thesis by blast
next
  case True
  obtain r1 s1 where x: "external (GraphSearchCall q 20) (neo4j_search_graph env q 20) s = (r1, s1)"
    by (cases "external (GraphSearchCall q 20) (neo4j_search_graph env q 20) s")
  have t1: "trace s1 = trace s @ [GraphSearchCall q 20]" by (rule external_trace[OF x])
  show ?thesis
  proof (cases r1)
    case (Inl e)
    then have "s' = s1" using assms True x
      by (simp add: search_knowledge_graph_def try_except_st_def)
    then have "trace s' = trace s @ [GraphSearchCall q 20]
               \<and> embed_texts [GraphSearchCall q 20] = []
               \<and> completion_prompts [GraphSearchCall q 20] = []"
      using t1 by simp
    then show ?thesis by blast
  next
    case (Inr ents)
    obtain r2 s2 where c: "collect_relationships env ents [] s1 = (r2, s2)"
      by (cases "collect_relationships env ents [] s1")
    have "s' = s2" using assms True x Inr c
      by (simp add: search_knowledge_graph_def try_except_st_def)
    moreover from collect_relationships_trace[OF c] obtain cs where
      "trace s2 = trace s1 @ cs" "embed_texts cs = []" "completion_prompts cs = []" by blast
    ultimately have "trace s' = trace s @ (GraphSearchCall q 20 # cs)
               \<and> embed_texts (GraphSearchCall q 20 # cs) = []
               \<and> completion_prompts (GraphSearchCall q 20 # cs) = []"
      using t1 by simp
    then show ?thesis by blast
  qed
qed


lemma hybrid_search_trace:
  assumes "hybrid_search env rag q include_kg s = (r, s')"
  shows "\<exists>cs. trace s' = trace s @ cs \<and> embed_texts cs = [q, q] \<and> completion_prompts cs = []"
proof -
  obtain docs s1 where d: "search_documents env rag q 10 s = (Inr docs, s1)"
    using search_documents_numeric by blast
  obtain chunks s2 where c: "search_chunks env rag q 20 s1 = (Inr chunks, s2)"
    using search_chunks_numeric by blast
  obtain kg s3 where k: "(if include_kg then search_knowledge_graph env rag q s2
                          else (Inr [], s2)) = (Inr kg, s3)"
    using search_knowledge_graph_total[of env rag q s2] by (cases include_kg) auto
  have "snd (hybrid_search env rag q include_kg s) = s3"
    unfolding hybrid_search_def try_except_st_snd
    by (simp only: d c k prod.case sum.case)
       (cases "combine_search_results env docs chunks kg q"; simp)
  then have s': "s' = s3" using assms by simp
  from search_documents_trace[OF d] obtain cs1 where
    t1: "trace s1 = trace s @ EmbedCall q # cs1" "embed_texts cs1 = []" "completion_prompts cs1 = []"
    by blast
  from search_chunks_trace[OF c] obtain cs2 where
    t2: "trace s2 = trace s1 @ EmbedCall q # cs2" "embed_texts cs2 = []" "completion_prompts cs2 = []"
    by blast
  have "\<exists>cs3. trace s3 = trace s2 @ cs3 \<and> embed_texts cs3 = [] \<and> completion_prompts cs3 = []"
  proof (cases include_kg)
    case True
    then have "search_knowledge_graph env rag q s2 = (Inr kg, s3)" using k by simp
    then show ?thesis by (rule search_knowledge_graph_trace)
  next
    case False
    then have "s3 = s2" using k by simp
    then have "trace s3 = trace s2 @ [] \<and> embed_texts [] = [] \<and> completion_prompts [] = []"
      by simp
    then show ?thesis by blast
  qed
  then obtain cs3 where
    t3: "trace s3 = trace s2 @ cs3" "embed_texts cs3 = []" "completion_prompts cs3 = []"
    by blast
  let ?cs = "EmbedCall q # cs1 @ EmbedCall q # cs2 @ cs3"
  have "trace s' = trace s @ ?cs" using s' t1(1) t2(1) t3(1) by simp
  moreover have "embed_texts ?cs = [q, q]"
    using t1(2) t2(2) t3(2) by (simp add: embed_texts_append)
  moreover have "completion_prompts ?cs = []"
    using t1(3) t2(3) t3(3) by (simp add: completion_prompts_append)
  ultimately show ?thesis by blast
qed

text \<open>
  C8 (as amended). For every call of \<^verbatim>\<open>hybrid_search\<close> with a query text, and whatever
  the providers and stores do, the embedding provider is invoked exactly twice, both times
  with that query text: once by the document search and once by the chunk search. The two
  searches do not share an embedding.
\<close>

theorem hybrid_search_embeds_twice:
  "embed_texts (trace (snd (hybrid_search env rag q include_kg s)))
   = embed_texts (trace s) @ [q, q]"
proof -
  obtain r s' where h: "hybrid_search env rag q include_kg s = (r, s')"
    by (cases "hybrid_search env rag q include_kg s")
  from hybrid_search_trace[OF h] obtain cs where
    "trace s' = trace s @ cs" "embed_texts cs = [q, q]" by blast
  then show ?thesis using h by (simp add: embed_texts_append)
qed

text \<open>
  With the sample providers, one call of \<^verbatim>\<open>hybrid_search\<close> for the query \<^verbatim>\<open>q\<close> hands
  \<^verbatim>\<open>q\<close> to the embedding provider twice, not once.
\<close>

theorem hybrid_search_embeds_once_counterexample:
  "embed_texts (trace (snd (hybrid_search sample_env sample_rag ''q'' True start))) = [''q'', ''q'']
   \<and> length (embed_texts (trace (snd (hybrid_search sample_env sample_rag ''q'' True start)))) \<noteq> 1"
proof -
  obtain r s' where h: "hybrid_search sample_env sample_rag ''q'' True start = (r, s')"
    by (cases "hybrid_search sample_env sample_rag ''q'' True start")
  from hybrid_search_trace[OF h] obtain cs where
    "trace s' = trace start @ cs" "embed_texts cs = [''q'', ''q'']" by blast
  then have "embed_texts (trace s') = [''q'', ''q'']" by (simp add: start_def)
  then show ?thesis using h by simp
qed

section \<open>The verify stage\<close>

lemma search_agent_ok:
  "search_agent env st s = (Inr st1, s1) \<Longrightarrow>
   \<exists>m. st1 = st\<lparr> as_messages := as_messages st @ [AIMessage m] \<rparr>"
  by (auto simp: search_agent_def split: if_splits prod.splits sum.splits)

lemma analysis_agent_ok:
  "analysis_agent env st s = (Inr st1, s1) \<Longrightarrow>
   \<exists>m. st1 = st\<lparr> as_messages := as_messages st @ [AIMessage m], as_analysis := Some m \<rparr>"
  by (auto simp: analysis_agent_def Let_def split: if_splits prod.splits sum.splits)

lemma synthesis_agent_ok:
  "synthesis_agent env st s = (Inr st1, s1) \<Longrightarrow>
   \<exists>m. st1 = st\<lparr> as_messages := as_messages st @ [AIMessage m], as_response := m \<rparr>"
  by (auto simp: synthesis_agent_def split: if_splits prod.splits sum.splits option.splits)

lemma fact_checker_ok:
  "fact_checker env st s = (Inr st1, s1) \<Longrightarrow>
   \<exists>m. st1 = st\<lparr> as_messages := as_messages st @ [AIMessage m] \<rparr>"
  by (auto simp: fact_checker_def split: if_splits prod.splits sum.splits)

lemma graph_invoke_ok:
  assumes "graph_invoke env st0 s0 = (Inr fin, s4)"
  shows "\<exists>a b c d st3 s3.
           fact_checker env st3 s3 = (Inr fin, s4)
           \<and> as_response st3 = c
           \<and> fin = st0\<lparr> as_messages := as_messages st0
                           @ [AIMessage a, AIMessage b, AIMessage c, AIMessage d],
                        as_analysis := Some b, as_response := c \<rparr>"
proof -
  from assms obtain st1 s1 st2 s2 st3 s3 where
    st: "search_agent env st0 s0 = (Inr st1, s1)"
        "analysis_agent env st1 s1 = (Inr st2, s2)"
        "synthesis_agent env st2 s2 = (Inr st3, s3)"
        "fact_checker env st3 s3 = (Inr fin, s4)"
    by (auto simp: graph_invoke_def split: prod.splits sum.splits)
  from search_agent_ok[OF st(1)] obtain a where
    a: "st1 = st0\<lparr> as_messages := as_messages st0 @ [AIMessage a] \<rparr>" by blast
  from analysis_agent_ok[OF st(2)] obtain b where
    b: "st2 = st1\<lparr> as_messages := as_messages st1 @ [AIMessage b], as_analysis := Some b \<rparr>"
    by blast
  from synthesis_agent_ok[OF st(3)] obtain c where
    c: "st3 = st2\<lparr> as_messages := as_messages st2 @ [AIMessage c], as_response := c \<rparr>"
    by blast
  from fact_checker_ok[OF st(4)] obtain d where
    d: "fin = st3\<lparr> as_messages := as_messages st3 @ [AIMessage d] \<rparr>" by blast
  have "as_response st3 = c" using c by simp
  moreover have "fin = st0\<lparr> as_messages := as_messages st0
                           @ [AIMessage a, AIMessage b, AIMessage c, AIMessage d],
                        as_analysis := Some b, as_response := c \<rparr>"
    using a b c d by simp
  ultimately show ?thesis using st(4) by blast
qed

lemma execute_search_success:
  assumes "execute_search env rag sq docs kg s = (Inr ar, s')" and "ar_status ar = ''success''"
  shows "\<exists>a b c d. ar_result ar = Some c
           \<and> ar_conversation_history ar = Some [sq_query sq, a, b, c, d]"
proof -
  let ?init = "\<lparr> as_messages = [HumanMessage (sq_query sq)], as_next = ''search'',
                  as_documents = docs, as_kg_context = kg, as_analysis = None,
                  as_response = [] \<rparr>"
  from assms obtain fin where
    g: "graph_invoke env ?init s = (Inr fin, s')"
    and ar: "ar_result ar = Some (as_response fin)"
            "ar_conversation_history ar = Some (map content (as_messages fin))"
    by (auto simp: execute_search_def try_except_st_def try_except_def error_result_def Let_def
             split: if_splits prod.splits sum.splits py_exn.splits)
  from graph_invoke_ok[OF g] obtain a b c d where
    "fin = ?init\<lparr> as_messages := as_messages ?init
                           @ [AIMessage a, AIMessage b, AIMessage c, AIMessage d],
                        as_analysis := Some b, as_response := c \<rparr>"
    by blast
  then have "as_response fin = c"
    and "map content (as_messages fin) = [sq_query sq, a, b, c, d]"
    by simp_all
  then show ?thesis using ar by simp
qed

text \<open>
  C7. The verify stage (\<^verbatim>\<open>fact_checker\<close>), when it returns, has appended one message to
  the transcript and has left the response field as it found it. A run of the four stages
  that completes ends with the response the synthesize stage stored. So whenever
  \<^verbatim>\<open>execute_search\<close> reports success, its result is the synthesize stage's output, the
  fourth entry of the transcript (question, search, analysis, synthesis, verification),
  whatever the completion provider answered at the verify stage.
\<close>

theorem verify_leaves_response:
  "(fact_checker env st s = (Inr st', s') \<longrightarrow>
      as_response st' = as_response st
      \<and> (\<exists>m. as_messages st' = as_messages st @ [AIMessage m]))
   \<and> (graph_invoke env st0 s0 = (Inr fin, s4) \<longrightarrow>
      (\<exists>st3 s3. fact_checker env st3 s3 = (Inr fin, s4) \<and> as_response fin = as_response st3))
   \<and> (execute_search env rag sq docs kg s = (Inr ar, s') \<and> ar_status ar = ''success'' \<longrightarrow>
      (\<exists>search analysis synth verify.
          ar_result ar = Some synth
          \<and> ar_conversation_history ar = Some [sq_query sq, search, analysis, synth, verify]))"
proof -
  have A: "fact_checker env st s = (Inr st', s') \<longrightarrow>
      as_response st' = as_response st
      \<and> (\<exists>m. as_messages st' = as_messages st @ [AIMessage m])"
  proof
    assume "fact_checker env st s = (Inr st', s')"
    from fact_checker_ok[OF this] obtain m where
      "st' = st\<lparr> as_messages := as_messages st @ [AIMessage m] \<rparr>" by blast
    then show "as_response st' = as_response st
        \<and> (\<exists>m. as_messages st' = as_messages st @ [AIMessage m])" by simp
  qed
  have B: "graph_invoke env st0 s0 = (Inr fin, s4) \<longrightarrow>
      (\<exists>st3 s3. fact_checker env st3 s3 = (Inr fin, s4) \<and> as_response fin = as_response st3)"
  proof
    assume "graph_invoke env st0 s0 = (Inr fin, s4)"
    from graph_invoke_ok[OF this] obtain a b c d st3 s3 where
      h: "fact_checker env st3 s3 = (Inr fin, s4)" "as_response st3 = c"
         "fin = st0\<lparr> as_messages := as_messages st0
                             @ [AIMessage a, AIMessage b, AIMessage c, AIMessage d],
                          as_analysis := Some b, as_response := c \<rparr>"
      by blast
    then have "as_response fin = as_response st3" by simp
    then show "\<exists>st3 s3. fact_checker env st3 s3 = (Inr fin, s4)
                 \<and> as_response fin = as_response st3"
      using h(1) by blast
  qed
  have C: "execute_search env rag sq docs kg s = (Inr ar, s') \<and> ar_status ar = ''success'' \<longrightarrow>
      (\<exists>search analysis synth verify.
          ar_result ar = Some synth
          \<and> ar_conversation_history ar = Some [sq_query sq, search, analysis, synth, verify])"
    using execute_search_success by blast
  from A B C show ?thesis by (intro conjI)
qed

lemma execute_search_sample:
  "fst (execute_search sample_env sample_rag (factual ''q'') [] [] start)
   = Inr \<lparr> ar_status = ''success'', ar_result = Some ''draft'', ar_error = None,
           ar_query = ''q'', ar_num_docs_analyzed = Some 0,
           ar_kg_entities_considered = Some 0,
           ar_conversation_history = Some [''q'', ''relevant'', ''findings'', ''draft'', ''checked''] \<rparr>"
  by (simp add: execute_search_def graph_invoke_def search_agent_def analysis_agent_def
      synthesis_agent_def fact_checker_def external_def try_except_st_def try_except_def
      sample_env_def sample_rag_def sample_reply_def factual_def start_def Let_def py_join_def)

text \<open>
  With the sample provider the stages answer \<^verbatim>\<open>relevant\<close>, \<^verbatim>\<open>findings\<close>, \<^verbatim>\<open>draft\<close>
  and \<^verbatim>\<open>checked\<close>: the result is \<^verbatim>\<open>draft\<close>.
\<close>

theorem verify_leaves_response_witness:
  "ar_result (projr (fst (execute_search sample_env sample_rag (factual ''q'') [] [] start)))
     = Some ''draft''
   \<and> ar_conversation_history
        (projr (fst (execute_search sample_env sample_rag (factual ''q'') [] [] start)))
     = Some [''q'', ''relevant'', ''findings'', ''draft'', ''checked'']"
proof -
  obtain r s' where e: "execute_search sample_env sample_rag (factual ''q'') [] [] start = (r, s')"
    by (cases "execute_search sample_env sample_rag (factual ''q'') [] [] start")
  let ?ar = "\<lparr> ar_status = ''success'', ar_result = Some ''draft'', ar_error = None,
           ar_query = ''q'', ar_num_docs_analyzed = Some 0,
           ar_kg_entities_considered = Some 0,
           ar_conversation_history = Some [''q'', ''relevant'', ''findings'', ''draft'', ''checked''] \<rparr>"
  have r: "r = Inr ?ar" using e execute_search_sample by simp
  have ok: "execute_search sample_env sample_rag (factual ''q'') [] [] start = (Inr ?ar, s')
            \<and> ar_status ?ar = ''success''"
    using e r by simp
  from verify_leaves_response[where env = sample_env and rag = sample_rag
         and sq = "factual ''q''" and docs = "[]" and kg = "[]" and s = start
         and ar = ?ar and s' = s']
    ok
  obtain search analysis synth verify where
    "ar_result ?ar = Some synth"
    "ar_conversation_history ?ar = Some [sq_query (factual ''q''), search, analysis, synth, verify]"
    by blast
  then show ?thesis using e r by simp
qed

section \<open>The orchestrator never raises\<close>

lemma try_except_st_total_msg:
  "\<exists>v s'. try_except_st b (\<lambda>e. case e of Exception msg \<Rightarrow> Inr (h msg)) = (Inr v, s')"
  by (cases b; cases "fst b")
     (auto simp: try_except_st_def try_except_def split: py_exn.splits)

lemma classify_query_total:
  "\<exists>sq s'. classify_query env rag q s = (Inr sq, s') \<and> sq_query sq = q"
proof -
  have "\<exists>sq s'. classify_query env rag q s = (Inr sq, s')"
    unfolding classify_query_def by (rule try_except_st_total[where h = "\<lambda>e. factual q"])
  then obtain sq s' where c: "classify_query env rag q s = (Inr sq, s')" by blast
  then have "sq_query sq = q"
    by (auto simp: classify_query_def try_except_st_def try_except_def factual_def
             split: if_splits prod.splits sum.splits option.splits)
  then show ?thesis using c by blast
qed

lemma execute_search_total:
  "\<exists>ar s'. execute_search env rag sq docs kg s = (Inr ar, s')"
  unfolding execute_search_def by (rule try_except_st_total_msg)

lemma generate_follow_up_questions_total:
  "\<exists>f s'. generate_follow_up_questions env rag q a s = (Inr f, s') \<and> length f \<le> 5"
proof -
  have "\<exists>f s'. generate_follow_up_questions env rag q a s = (Inr f, s')"
    unfolding generate_follow_up_questions_def by (rule try_except_st_total[where h = "\<lambda>e. []"])
  then obtain f s' where c: "generate_follow_up_questions env rag q a s = (Inr f, s')" by blast
  then have "length f \<le> 5"
    by (auto simp: generate_follow_up_questions_def try_except_st_def try_except_def
             split: if_splits prod.splits sum.splits option.splits)
  then show ?thesis using c by blast
qed

lemma generate_answer_cases:
  "\<exists>a s'. generate_answer env rag q sr s = (Inr a, s')
     \<and> ((ad_sources a = [] \<and> ad_follow_up_questions a = [] \<and> ad_confidence a = 0)
        \<or> (ad_sources a = extract_sources sr \<and> length (ad_follow_up_questions a) \<le> 5
            \<and> calculate_confidence sr = Inr (ad_confidence a)))"
proof -
  obtain sq s1 where cq: "classify_query env rag q s = (Inr sq, s1)"
    using classify_query_total by blast
  obtain ar s2 where es: "execute_search env rag sq (get_list (sr_documents sr))
                            (get_list (sr_knowledge_graph sr)) s1 = (Inr ar, s2)"
    using execute_search_total by blast
  show ?thesis
  proof (cases "ar_status ar = ''success''")
    case True
    from execute_search_success[OF es True] obtain ans where ans: "ar_result ar = Some ans"
      by blast
    obtain f s3 where fu: "generate_follow_up_questions env rag q ans s2 = (Inr f, s3)"
        "length f \<le> 5"
      using generate_follow_up_questions_total by blast
    obtain c where c: "calculate_confidence sr = Inr c"
      using calculate_confidence_total by blast
    have "generate_answer env rag q sr s
          = (Inr \<lparr> ad_answer = ans, ad_sources = extract_sources sr,
                   ad_follow_up_questions = f, ad_query_type = sq_query_type sq,
                   ad_confidence = c \<rparr>, s3)"
      unfolding generate_answer_def
      by (simp add: cq es True ans fu(1) c try_except_st_def try_except_def Let_def)
    then show ?thesis using fu(2) c by simp
  next
    case False
    have "generate_answer env rag q sr s
          = (Inr \<lparr> ad_answer = ''I encountered an error while processing your query: ''
                                        @ (case ar_error ar of
                                             None \<Rightarrow> ''Unknown error'' | Some msg \<Rightarrow> msg),
                   ad_sources = [], ad_follow_up_questions = [],
                   ad_query_type = sq_query_type sq, ad_confidence = 0 \<rparr>, s2)"
      unfolding generate_answer_def
      by (simp add: cq es False try_except_st_def try_except_def Let_def)
    then show ?thesis by simp
  qed
qed

lemma hybrid_search_total:
  "\<exists>sr s'. hybrid_search env rag q include_kg s = (Inr sr, s')"
  using hybrid_search_result[of env rag q include_kg s] by blast

lemma ask_question_body_cases:
  "(\<exists>e s'. ask_question_body env rag q sid s = (Inl e, s'))
   \<or> (\<exists>r s'. ask_question_body env rag q sid s = (Inr r, s')
         \<and> r_query r = q \<and> r_num_sources r = length (r_sources r)
         \<and> length (r_sources r) \<le> 10 \<and> length (r_follow_up_questions r) \<le> 5)"
proof -
  obtain sr s1 where h: "hybrid_search env rag q True s = (Inr sr, s1)"
    using hybrid_search_total by blast
  obtain a s2 where g: "generate_answer env rag q sr s1 = (Inr a, s2)"
    and a: "(ad_sources a = [] \<and> ad_follow_up_questions a = [] \<and> ad_confidence a = 0)
        \<or> (ad_sources a = extract_sources sr \<and> length (ad_follow_up_questions a) \<le> 5
            \<and> calculate_confidence sr = Inr (ad_confidence a))"
    using generate_answer_cases by blast
  have len: "length (ad_sources a) \<le> 10 \<and> length (ad_follow_up_questions a) \<le> 5"
    using a by (auto simp: extract_sources_def)
  obtain u s3 where st: "store_exchange env sid q a s2 = (u, s3)"
    by (cases "store_exchange env sid q a s2")
  show ?thesis
  proof (cases u)
    case (Inl e)
    then have "ask_question_body env rag q sid s = (Inl e, s3)"
      by (simp add: ask_question_body_def h g st)
    then show ?thesis by blast
  next
    case (Inr v)
    then show ?thesis using len
      by (simp add: ask_question_body_def h g st)
  qed
qed

text \<open>
  C1. For every query string (the empty one included), every optional session
  identifier and every behaviour of the providers and stores, \<^verbatim>\<open>ask_question\<close> returns
  an answer and does not raise. The answer echoes the query, its source count is the
  length of its source list, it has at most 10 sources and at most 5 follow-up questions.
  When the body of \<^verbatim>\<open>ask_question\<close> raises, the answer carries the message
  \<^verbatim>\<open>I'm sorry, I encountered an error:\<close> followed by the exception's text, confidence
  0.0, query type \<^verbatim>\<open>error\<close>, no sources and a source count of 0.
\<close>

theorem ask_question_never_raises:
  "\<exists>r s'. ask_question env rag q sid s = (Inr r, s')
     \<and> r_query r = q
     \<and> r_num_sources r = length (r_sources r)
     \<and> length (r_sources r) \<le> 10
     \<and> length (r_follow_up_questions r) \<le> 5
     \<and> (\<forall>msg s1. ask_question_body env rag q sid s = (Inl (Exception msg), s1) \<longrightarrow>
           s' = s1
           \<and> r_answer r = ''I'' @ [CHR 39] @ ''m sorry, I encountered an error: '' @ msg
           \<and> r_confidence r = 0
           \<and> r_query_type r = PStr ''error''
           \<and> r_sources r = []
           \<and> r_num_sources r = 0
           \<and> r_follow_up_questions r = []
           \<and> r_search_results r = empty_search_results)"
proof -
  from ask_question_body_cases[of env rag q sid s] show ?thesis
  proof (elim disjE exE conjE)
    fix e s' assume b: "ask_question_body env rag q sid s = (Inl e, s')"
    obtain msg where e: "e = Exception msg" by (cases e)
    have "ask_question env rag q sid s = (Inr (error_response q e), s')"
      by (simp add: ask_question_def b try_except_st_def try_except_def)
    then show ?thesis using b e by (simp add: error_response_def)
  next
    fix r s' assume b: "ask_question_body env rag q sid s = (Inr r, s')"
      and p: "r_query r = q" "r_num_sources r = length (r_sources r)"
             "length (r_sources r) \<le> 10" "length (r_follow_up_questions r) \<le> 5"
    have "ask_question env rag q sid s = (Inr r, s')"
      by (simp add: ask_question_def b try_except_st_def try_except_def)
    then show ?thesis using b p by simp
  qed
qed


lemma store_exchange_failing:
  "\<exists>s'. store_exchange failing_env (Some ''s1'') q a s = (Inl (Exception ''unavailable''), s')"
  by (simp add: store_exchange_def add_chat_message_def external_def failing_env_def)

lemma ask_question_body_failing:
  "\<exists>s'. ask_question_body failing_env rag q (Some ''s1'') s = (Inl (Exception ''unavailable''), s')"
proof -
  obtain sr s1 where h: "hybrid_search failing_env rag q True s = (Inr sr, s1)"
    using hybrid_search_total by blast
  obtain a s2 where g: "generate_answer failing_env rag q sr s1 = (Inr a, s2)"
    using generate_answer_cases by blast
  obtain s3 where st: "store_exchange failing_env (Some ''s1'') q a s2
                       = (Inl (Exception ''unavailable''), s3)"
    using store_exchange_failing by blast
  have "ask_question_body failing_env rag q (Some ''s1'') s = (Inl (Exception ''unavailable''), s3)"
    by (simp add: ask_question_body_def h g st)
  then show ?thesis by blast
qed

text \<open>
  Every provider and store raising on every call, the empty query and a session
  identifier: the chat store's exception reaches the boundary and the error answer comes
  back.
\<close>

theorem ask_question_never_raises_witness:
  "fst (ask_question failing_env sample_rag [] (Some ''s1'') start)
   = Inr \<lparr> r_query = [],
           r_answer = ''I'' @ [CHR 39] @ ''m sorry, I encountered an error: unavailable'',
           r_sources = [], r_follow_up_questions = [], r_confidence = 0,
           r_query_type = PStr ''error'', r_num_sources = 0,
           r_search_results = empty_search_results \<rparr>"
proof -
  obtain s1 where b: "ask_question_body failing_env sample_rag [] (Some ''s1'') start
                      = (Inl (Exception ''unavailable''), s1)"
    using ask_question_body_failing by blast
  from ask_question_never_raises[of failing_env sample_rag "[]" "Some ''s1''" start] b
  obtain r s' where r: "ask_question failing_env sample_rag [] (Some ''s1'') start = (Inr r, s')"
    "r_query r = []"
    "r_answer r = ''I'' @ [CHR 39] @ ''m sorry, I encountered an error: '' @ ''unavailable''"
    "r_confidence r = 0" "r_query_type r = PStr ''error''" "r_sources r = []"
    "r_num_sources r = 0" "r_follow_up_questions r = []"
    "r_search_results r = empty_search_results"
    by blast
  then show ?thesis by (cases r) simp
qed

section \<open>A completion provider that always raises\<close>

lemma llm_down_external:
  assumes "\<forall>p w. isl (fst (llm_invoke env p w))"
  shows "\<exists>e s'. external (CompletionCall p) (llm_invoke env p) s = (Inl e, s')
           \<and> trace s' = trace s @ [CompletionCall p]"
proof -
  obtain r w' where l: "llm_invoke env p (world s) = (r, w')"
    by (cases "llm_invoke env p (world s)")
  have "isl r" using assms[rule_format, of p "world s"] l by simp
  then obtain e where "r = Inl e" by (cases r) auto
  then show ?thesis using l by (simp add: external_def)
qed

lemma classify_query_llm_down:
  assumes "\<forall>p w. isl (fst (llm_invoke env p w))"
  shows "\<exists>s'. classify_query env rag q s = (Inr (factual q), s')
           \<and> trace s' = trace s @ (if agents_llm rag then [CompletionCall (ClassifyPrompt q)] else [])"
proof (cases "agents_llm rag")
  case False
  then show ?thesis
    by (simp add: classify_query_def try_except_st_def try_except_def)
next
  case True
  from llm_down_external[OF assms, of "ClassifyPrompt q" s] obtain e s' where
    "external (CompletionCall (ClassifyPrompt q)) (llm_invoke env (ClassifyPrompt q)) s = (Inl e, s')"
    "trace s' = trace s @ [CompletionCall (ClassifyPrompt q)]" by blast
  then show ?thesis using True
    by (simp add: classify_query_def try_except_st_def try_except_def)
qed

lemma execute_search_llm_down:
  assumes "\<forall>p w. isl (fst (llm_invoke env p w))"
  shows "\<exists>msg s'. execute_search env rag sq docs kg s = (Inr (error_result msg (sq_query sq)), s')
           \<and> trace s' = trace s @ (if agents_graph rag
                                    then [CompletionCall (SearchPrompt (sq_query sq) docs)] else [])"
proof (cases "agents_graph rag")
  case False
  then have "execute_search env rag sq docs kg s
             = (Inr (error_result ''Agent graph not initialized'' (sq_query sq)), s)"
    by (simp add: execute_search_def try_except_st_def try_except_def)
  moreover have "trace s = trace s @ (if agents_graph rag
                      then [CompletionCall (SearchPrompt (sq_query sq) docs)] else [])"
    using False by simp
  ultimately show ?thesis by blast
next
  case True
  from llm_down_external[OF assms, of "SearchPrompt (sq_query sq) docs" s] obtain e s' where
    x: "external (CompletionCall (SearchPrompt (sq_query sq) docs))
          (llm_invoke env (SearchPrompt (sq_query sq) docs)) s = (Inl e, s')"
    "trace s' = trace s @ [CompletionCall (SearchPrompt (sq_query sq) docs)]" by blast
  obtain msg where e: "e = Exception msg" by (cases e)
  have "execute_search env rag sq docs kg s = (Inr (error_result msg (sq_query sq)), s')"
    using True x(1) e
    by (simp add: execute_search_def graph_invoke_def search_agent_def
        try_except_st_def try_except_def Let_def)
  then show ?thesis using x(2) True by auto
qed

lemma generate_answer_llm_down:
  assumes "\<forall>p w. isl (fst (llm_invoke env p w))"
  shows "\<exists>a s'. generate_answer env rag q sr s = (Inr a, s')
           \<and> ad_sources a = [] \<and> ad_follow_up_questions a = [] \<and> ad_confidence a = 0
           \<and> ad_query_type a = PStr ''factual''
           \<and> trace s' = trace s
                @ (if agents_llm rag then [CompletionCall (ClassifyPrompt q)] else [])
                @ (if agents_graph rag
                   then [CompletionCall (SearchPrompt q (get_list (sr_documents sr)))] else [])"
proof -
  from classify_query_llm_down[OF assms, of rag q s] obtain s1 where
    cq: "classify_query env rag q s = (Inr (factual q), s1)"
    and t1: "trace s1 = trace s @ (if agents_llm rag then [CompletionCall (ClassifyPrompt q)] else [])"
    by blast
  from execute_search_llm_down[OF assms, of rag "factual q" "get_list (sr_documents sr)"
        "get_list (sr_knowledge_graph sr)" s1]
  obtain msg s2 where
    es: "execute_search env rag (factual q) (get_list (sr_documents sr))
           (get_list (sr_knowledge_graph sr)) s1 = (Inr (error_result msg q), s2)"
    and t2: "trace s2 = trace s1 @ (if agents_graph rag
                then [CompletionCall (SearchPrompt q (get_list (sr_documents sr)))] else [])"
    by (auto simp: factual_def)
  have qt: "sq_query_type (factual q) = PStr ''factual''" by (simp add: factual_def)
  have st: "ar_status (error_result msg q) \<noteq> ''success''"
    and er: "ar_error (error_result msg q) = Some msg"
    by (simp_all add: error_result_def)
  have "generate_answer env rag q sr s
        = (Inr \<lparr> ad_answer = ''I encountered an error while processing your query: '' @ msg,
                 ad_sources = [], ad_follow_up_questions = [],
                 ad_query_type = PStr ''factual'', ad_confidence = 0 \<rparr>, s2)"
    unfolding generate_answer_def
    by (simp add: cq es qt st er try_except_st_def try_except_def Let_def)
  then show ?thesis using t1 t2 by simp
qed

lemma store_exchange_trace:
  assumes "store_exchange env sid q a s = (u, s')"
  shows "\<exists>cs. trace s' = trace s @ cs \<and> completion_prompts cs = [] \<and> embed_texts cs = []"
proof (cases "\<exists>t. sid = Some t \<and> t \<noteq> []")
  case False
  then have "s' = s" using assms
    by (auto simp: store_exchange_def split: option.splits if_splits)
  then have "trace s' = trace s @ [] \<and> completion_prompts [] = [] \<and> embed_texts [] = []"
    by simp
  then show ?thesis by blast
next
  case True
  then obtain t where t: "sid = Some t" "t \<noteq> []" by blast
  obtain u1 s1 where a1: "add_chat_message env t ''user'' q [] s = (u1, s1)"
    by (cases "add_chat_message env t ''user'' q [] s")
  have t1: "trace s1 = trace s @ [ChatMessageCall t ''user'' q]"
    using a1 unfolding add_chat_message_def by (rule external_trace)
  show ?thesis
  proof (cases u1)
    case (Inl e)
    then have "s' = s1" using assms t a1 by (simp add: store_exchange_def)
    then have "trace s' = trace s @ [ChatMessageCall t ''user'' q]
               \<and> completion_prompts [ChatMessageCall t ''user'' q] = []
               \<and> embed_texts [ChatMessageCall t ''user'' q] = []"
      using t1 by simp
    then show ?thesis by blast
  next
    case (Inr v)
    then have a2: "add_chat_message env t ''assistant'' (ad_answer a) (ad_sources a) s1 = (u, s')"
      using assms t a1 by (simp add: store_exchange_def)
    have "trace s' = trace s1 @ [ChatMessageCall t ''assistant'' (ad_answer a)]"
      using a2 unfolding add_chat_message_def by (rule external_trace)
    then have "trace s' = trace s @ [ChatMessageCall t ''user'' q,
                                      ChatMessageCall t ''assistant'' (ad_answer a)]
               \<and> completion_prompts [ChatMessageCall t ''user'' q,
                                      ChatMessageCall t ''assistant'' (ad_answer a)] = []
               \<and> embed_texts [ChatMessageCall t ''user'' q,
                                      ChatMessageCall t ''assistant'' (ad_answer a)] = []"
      using t1 by simp
    then show ?thesis by blast
  qed
qed


lemma ask_question_llm_down:
  assumes "\<forall>p w. isl (fst (llm_invoke env p w))"
  shows "\<exists>r s' docs. ask_question env rag q sid s = (Inr r, s')
     \<and> r_confidence r = 0 \<and> r_sources r = [] \<and> r_num_sources r = 0
     \<and> r_follow_up_questions r = []
     \<and> r_query_type r = (if isl (fst (ask_question_body env rag q sid s))
                          then PStr ''error'' else PStr ''factual'')
     \<and> (sid = None \<or> sid = Some [] \<longrightarrow> r_query_type r = PStr ''factual'')
     \<and> completion_prompts (trace s')
         = completion_prompts (trace s)
           @ (if agents_llm rag then [ClassifyPrompt q] else [])
           @ (if agents_graph rag then [SearchPrompt q docs] else [])"
proof -
  obtain sr s1 where h: "hybrid_search env rag q True s = (Inr sr, s1)"
    using hybrid_search_total by blast
  from hybrid_search_trace[OF h] obtain cs1 where
    t1: "trace s1 = trace s @ cs1" "completion_prompts cs1 = []" by blast
  from generate_answer_llm_down[OF assms, of rag q sr s1] obtain a s2 where
    g: "generate_answer env rag q sr s1 = (Inr a, s2)"
    and a: "ad_sources a = []" "ad_follow_up_questions a = []" "ad_confidence a = 0"
           "ad_query_type a = PStr ''factual''"
    and t2: "trace s2 = trace s1
                @ (if agents_llm rag then [CompletionCall (ClassifyPrompt q)] else [])
                @ (if agents_graph rag
                   then [CompletionCall (SearchPrompt q (get_list (sr_documents sr)))] else [])"
    by blast
  obtain u s3 where st: "store_exchange env sid q a s2 = (u, s3)"
    by (cases "store_exchange env sid q a s2")
  from store_exchange_trace[OF st] obtain cs3 where
    t3: "trace s3 = trace s2 @ cs3" "completion_prompts cs3 = []" by blast
  have prompts: "completion_prompts (trace s3)
         = completion_prompts (trace s)
           @ (if agents_llm rag then [ClassifyPrompt q] else [])
           @ (if agents_graph rag then [SearchPrompt q (get_list (sr_documents sr))] else [])"
    using t1 t2 t3 by (simp add: completion_prompts_append)
  have nosession: "sid = None \<or> sid = Some [] \<Longrightarrow> \<not> isl u"
    using st by (auto simp: store_exchange_def)
  show ?thesis
  proof (cases u)
    case (Inl e)
    let ?r = "error_response q e"
    have b: "ask_question_body env rag q sid s = (Inl e, s3)"
      using Inl by (simp add: ask_question_body_def h g st)
    then have r: "ask_question env rag q sid s = (Inr ?r, s3)"
      by (simp add: ask_question_def try_except_st_def try_except_def)
    have ns: "\<not> (sid = None \<or> sid = Some [])" using nosession Inl by fastforce
    have f: "r_confidence ?r = 0" "r_sources ?r = []" "r_num_sources ?r = 0"
        "r_follow_up_questions ?r = []" "r_query_type ?r = PStr ''error''"
      by (cases e; simp add: error_response_def)+
    have qt: "r_query_type ?r = (if isl (fst (ask_question_body env rag q sid s))
                          then PStr ''error'' else PStr ''factual'')"
      using b f(5) by simp
    have imp: "sid = None \<or> sid = Some [] \<longrightarrow> r_query_type ?r = PStr ''factual''"
      using ns by blast
    from r f(1-4) qt imp prompts show ?thesis by blast
  next
    case (Inr v)
    let ?r = "\<lparr> r_query = q, r_answer = ad_answer a, r_sources = ad_sources a,
                r_follow_up_questions = ad_follow_up_questions a,
                r_confidence = ad_confidence a, r_query_type = ad_query_type a,
                r_num_sources = length (ad_sources a), r_search_results = sr \<rparr>"
    have b: "ask_question_body env rag q sid s = (Inr ?r, s3)"
      using Inr by (simp add: ask_question_body_def h g st)
    then have r: "ask_question env rag q sid s = (Inr ?r, s3)"
      by (simp add: ask_question_def try_except_st_def try_except_def)
    have f: "r_confidence ?r = 0" "r_sources ?r = []" "r_num_sources ?r = 0"
        "r_follow_up_questions ?r = []" "r_query_type ?r = PStr ''factual''"
      using a by simp_all
    have qt: "r_query_type ?r = (if isl (fst (ask_question_body env rag q sid s))
                          then PStr ''error'' else PStr ''factual'')"
      using b f(5) by simp
    have imp: "sid = None \<or> sid = Some [] \<longrightarrow> r_query_type ?r = PStr ''factual''"
      using f(5) by blast
    from r f(1-4) qt imp prompts show ?thesis by blast
  qed
qed

text \<open>
  C4 (as amended). If the completion provider raises on every call, the classifier falls
  back to \<^verbatim>\<open>factual\<close>, the reasoning pipeline aborts at its first stage (the only
  prompts sent are the classifier's and the search stage's), and \<^verbatim>\<open>ask_question\<close>
  returns an answer with confidence 0.0, no sources, no follow-up questions and query
  type \<^verbatim>\<open>factual\<close>. The query type is \<^verbatim>\<open>error\<close> only when the body of
  \<^verbatim>\<open>ask_question\<close> itself raises, which needs a session identifier and a failing chat
  store.
\<close>

theorem completion_provider_down:
  assumes "\<forall>p w. isl (fst (llm_invoke env p w))"
  shows "\<exists>r s' docs. ask_question env rag q sid s = (Inr r, s')
     \<and> r_confidence r = 0 \<and> r_sources r = [] \<and> r_num_sources r = 0
     \<and> r_follow_up_questions r = []
     \<and> r_query_type r = (if isl (fst (ask_question_body env rag q sid s))
                          then PStr ''error'' else PStr ''factual'')
     \<and> (sid = None \<or> sid = Some [] \<longrightarrow> r_query_type r = PStr ''factual'')
     \<and> completion_prompts (trace s')
         = completion_prompts (trace s)
           @ (if agents_llm rag then [ClassifyPrompt q] else [])
           @ (if agents_graph rag then [SearchPrompt q docs] else [])"
  using assms by (rule ask_question_llm_down)

lemma llm_down_env_raises: "\<forall>p w. isl (fst (llm_invoke llm_down_env p w))"
  by (simp add: llm_down_env_def)

lemma failing_env_raises: "\<forall>p w. isl (fst (llm_invoke failing_env p w))"
  by (simp add: failing_env_def)

text \<open>
  The sample stores with a completion provider that always raises, no session: query
  type \<^verbatim>\<open>factual\<close>, confidence 0.0, no sources.
\<close>

theorem completion_provider_down_witness:
  "r_query_type (projr (fst (ask_question llm_down_env sample_rag ''q'' None start))) = PStr ''factual''
   \<and> r_confidence (projr (fst (ask_question llm_down_env sample_rag ''q'' None start))) = 0
   \<and> r_sources (projr (fst (ask_question llm_down_env sample_rag ''q'' None start))) = []
   \<and> isl (fst (llm_invoke llm_down_env (ClassifyPrompt ''q'') ()))"
proof -
  from completion_provider_down[OF llm_down_env_raises, of sample_rag "''q''" None start]
  obtain r s' where "ask_question llm_down_env sample_rag ''q'' None start = (Inr r, s')"
    "r_confidence r = 0" "r_sources r = []" "r_query_type r = PStr ''factual''"
    by auto
  then show ?thesis by (simp add: llm_down_env_def)
qed

text \<open>
  Every provider and store raising on every call, no session: the completion provider
  raises, and the answer's query type is \<^verbatim>\<open>factual\<close>, not \<^verbatim>\<open>error\<close>.
\<close>

theorem completion_provider_down_counterexample:
  "isl (fst (llm_invoke failing_env (ClassifyPrompt ''q'') ()))
   \<and> isl (fst (llm_invoke failing_env (SearchPrompt ''q'' []) ()))
   \<and> r_query_type (projr (fst (ask_question failing_env sample_rag ''q'' None start)))
       = PStr ''factual''
   \<and> r_query_type (projr (fst (ask_question failing_env sample_rag ''q'' None start)))
       \<noteq> PStr ''error''"
proof -
  from ask_question_llm_down[OF failing_env_raises, of sample_rag "''q''" None start]
  obtain r s' where "ask_question failing_env sample_rag ''q'' None start = (Inr r, s')"
    "r_query_type r = PStr ''factual''"
    by auto
  then show ?thesis by (simp add: failing_env_def)
qed

section \<open>The exception path of the confidence computation\<close>

lemma py_sum_from_raises:
  "\<exists>v\<in>set vs. num_of v = None \<Longrightarrow> \<exists>e. py_sum_from acc vs = Inl e"
proof (induction vs arbitrary: acc)
  case Nil
  then show ?case by simp
next
  case (Cons v vs)
  show ?case
  proof (cases "num_of v")
    case None
    then show ?thesis by simp
  next
    case (Some x)
    then have "\<exists>v\<in>set vs. num_of v = None" using Cons.prems by auto
    then show ?thesis using Cons.IH Some by simp
  qed
qed

lemma calculate_confidence_body_raises:
  assumes "\<exists>v\<in>set (similarities sr). num_of v = None"
  shows "\<exists>e. calculate_confidence_body sr = Inl e"
proof -
  from assms have ne: "similarities sr \<noteq> []" and "\<exists>e. py_sum (similarities sr) = Inl e"
    using py_sum_from_raises[of "similarities sr" 0] by (auto simp: py_sum_def)
  then obtain e where e: "py_sum (similarities sr) = Inl e" by blast
  have vs: "map (\<lambda>doc. py_get doc ''similarity'' (PInt 0)) (get_list (sr_documents sr))
            @ map (\<lambda>chunk. py_get chunk ''similarity'' (PInt 0)) (get_list (sr_chunks sr))
            = similarities sr"
    by (simp add: similarities_def)
  have ne': "(get_list (sr_documents sr) = [] \<and> get_list (sr_chunks sr) = []) = False"
    using ne similarities_empty[of sr] by simp
  have "calculate_confidence_body sr = Inl e"
    unfolding calculate_confidence_body_def Let_def vs
    using ne e by (simp add: ne')
  then show ?thesis by blast
qed

text \<open>
  C10. If the body of \<^verbatim>\<open>_calculate_confidence\<close> raises, the function returns exactly
  0.5, not 0.0. The body does raise whenever some document or chunk carries a similarity
  that is not a number. An answer composed on that path, that is when the reasoning
  pipeline reported success, carries confidence 0.5 together with the pipeline's answer
  text and the extracted sources.
\<close>

theorem confidence_exception_gives_half:
  "(calculate_confidence_body sr = Inl e \<longrightarrow> calculate_confidence sr = Inr 0.5)
   \<and> ((\<exists>v\<in>set (similarities sr). num_of v = None)
        \<longrightarrow> (\<exists>e. calculate_confidence_body sr = Inl e))
   \<and> (calculate_confidence_body sr = Inl e
       \<and> classify_query env rag q s = (Inr sq, s1)
       \<and> execute_search env rag sq (get_list (sr_documents sr))
             (get_list (sr_knowledge_graph sr)) s1 = (Inr ar, s2)
       \<and> ar_status ar = ''success''
      \<longrightarrow> (\<exists>a s3. generate_answer env rag q sr s = (Inr a, s3)
             \<and> ad_confidence a = 0.5
             \<and> ad_sources a = extract_sources sr
             \<and> ar_result ar = Some (ad_answer a)))"
proof -
  have A: "calculate_confidence_body sr = Inl e \<longrightarrow> calculate_confidence sr = Inr 0.5"
    by (simp add: calculate_confidence_def try_except_def)
  have C: "calculate_confidence_body sr = Inl e
       \<and> classify_query env rag q s = (Inr sq, s1)
       \<and> execute_search env rag sq (get_list (sr_documents sr))
             (get_list (sr_knowledge_graph sr)) s1 = (Inr ar, s2)
       \<and> ar_status ar = ''success''
      \<longrightarrow> (\<exists>a s3. generate_answer env rag q sr s = (Inr a, s3)
             \<and> ad_confidence a = 0.5
             \<and> ad_sources a = extract_sources sr
             \<and> ar_result ar = Some (ad_answer a))"
  proof
    assume h: "calculate_confidence_body sr = Inl e
       \<and> classify_query env rag q s = (Inr sq, s1)
       \<and> execute_search env rag sq (get_list (sr_documents sr))
             (get_list (sr_knowledge_graph sr)) s1 = (Inr ar, s2)
       \<and> ar_status ar = ''success''"
    then have cq: "classify_query env rag q s = (Inr sq, s1)"
      and es: "execute_search env rag sq (get_list (sr_documents sr))
             (get_list (sr_knowledge_graph sr)) s1 = (Inr ar, s2)"
      and ok: "ar_status ar = ''success''"
      and c: "calculate_confidence sr = Inr 0.5"
      using A by simp_all
    from execute_search_success[OF es ok] obtain ans where ans: "ar_result ar = Some ans"
      by blast
    obtain f s3 where fu: "generate_follow_up_questions env rag q ans s2 = (Inr f, s3)"
      using generate_follow_up_questions_total by blast
    have "generate_answer env rag q sr s
          = (Inr \<lparr> ad_answer = ans, ad_sources = extract_sources sr,
                   ad_follow_up_questions = f, ad_query_type = sq_query_type sq,
                   ad_confidence = 0.5 \<rparr>, s3)"
      unfolding generate_answer_def
      by (simp add: cq es ok ans fu c try_except_st_def try_except_def Let_def)
    then show "\<exists>a s3. generate_answer env rag q sr s = (Inr a, s3)
             \<and> ad_confidence a = 0.5
             \<and> ad_sources a = extract_sources sr
             \<and> ar_result ar = Some (ad_answer a)"
      using ans by simp
  qed
  have B: "(\<exists>v\<in>set (similarities sr). num_of v = None)
        \<longrightarrow> (\<exists>e. calculate_confidence_body sr = Inl e)"
    using calculate_confidence_body_raises[of sr] by blast
  from A B C show ?thesis by (intro conjI)
qed

lemma malformed_not_numeric:
  "\<exists>v\<in>set (similarities malformed_results). num_of v = None"
  by (simp add: similarities_def malformed_results_def documents_only_def get_list_def
      py_get_def)

lemma classify_query_sample:
  "\<exists>s'. classify_query sample_env sample_rag q s = (Inr (factual q), s')"
  by (simp add: classify_query_def external_def try_except_st_def try_except_def
      sample_env_def sample_rag_def sample_reply_def re_search_greedy_def)

lemma execute_search_sample_success:
  "\<exists>ar s'. execute_search sample_env sample_rag sq docs kg s = (Inr ar, s')
      \<and> ar_status ar = ''success'' \<and> ar_result ar = Some ''draft''"
  by (simp add: execute_search_def graph_invoke_def search_agent_def analysis_agent_def
      synthesis_agent_def fact_checker_def external_def try_except_st_def try_except_def
      sample_env_def sample_rag_def sample_reply_def Let_def)

text \<open>
  One document whose similarity is the string \<^verbatim>\<open>high\<close>: the confidence is 0.5, and
  with the sample providers the composed answer \<^verbatim>\<open>draft\<close> carries it.
\<close>

theorem confidence_exception_gives_half_witness:
  "calculate_confidence malformed_results = Inr 0.5
   \<and> ad_confidence (projr (fst (generate_answer sample_env sample_rag ''q'' malformed_results start)))
       = 0.5
   \<and> ad_answer (projr (fst (generate_answer sample_env sample_rag ''q'' malformed_results start)))
       = ''draft''"
proof -
  from confidence_exception_gives_half[where sr = malformed_results] malformed_not_numeric
  obtain e where e: "calculate_confidence_body malformed_results = Inl e"
    by blast
  obtain s1 where cq: "classify_query sample_env sample_rag ''q'' start = (Inr (factual ''q''), s1)"
    using classify_query_sample by blast
  obtain ar s2 where es: "execute_search sample_env sample_rag (factual ''q'')
        (get_list (sr_documents malformed_results))
        (get_list (sr_knowledge_graph malformed_results)) s1 = (Inr ar, s2)"
      "ar_status ar = ''success''" "ar_result ar = Some ''draft''"
    using execute_search_sample_success by blast
  from confidence_exception_gives_half[where sr = malformed_results and e = e
         and env = sample_env and rag = sample_rag and q = "''q''" and s = start
         and sq = "factual ''q''" and ?s1.0 = s1 and ar = ar and ?s2.0 = s2]
    e cq es
  obtain a s3 where "calculate_confidence malformed_results = Inr 0.5"
    "generate_answer sample_env sample_rag ''q'' malformed_results start = (Inr a, s3)"
    "ad_confidence a = 0.5" "ar_result ar = Some (ad_answer a)"
    by blast
  then show ?thesis using es(3) by simp
qed

end
